theory Spec2Isabelle
  imports Main "HOL-Library.Sublist" "HOL-Library.Countable"
begin

section \<open>Overview\<close>

text \<open>
  The program is a single React page. It sends an uploaded image or video through three
  calls to a generative backend (analysis of the media, SEO copy for a platform, thumbnail
  concepts), keeps the 20 most recent completed runs in \<^verbatim>\<open>localStorage\<close>, regenerates the
  SEO copy when the platform changes and renders a thumbnail on request. This theory
  embeds the gateway functions of \<^verbatim>\<open>services/geminiService.ts\<close> and the effects and handlers
  of the component \<^verbatim>\<open>App\<close> of \<^verbatim>\<open>App.tsx\<close>, and proves properties of them.

  \<^item> An awaited call either resolves or rejects: a gateway function returns \<open>Inr\<close> the
    value or \<open>Inl\<close> the error, together with the log of the requests made so far.
  \<^item> The backend, \<^verbatim>\<open>JSON.parse\<close> and \<^verbatim>\<open>JSON.stringify\<close> are not part of the program: they
    are the fields of an environment that every function takes.
  \<^item> The state cells of the component, the store and the logs make up a world; a handler
    maps the world in which it is called to the world it leaves. It runs from its first
    statement to its last with no other handler in between, and its state updates take
    effect in the order in which they are written.
  \<^item> The page is what React renders from the state cells. A pipeline run waits for the
    backend three times, and React renders the updates queued so far each time; a render
    that throws takes the page down, and what the run has queued or sets after that is
    lost. These renders are part of the model of \<^verbatim>\<open>processFlow\<close>; the other handlers are
    modelled by the updates they make.
\<close>


section \<open>Data model (types.ts)\<close>

text \<open>
  The interfaces of \<^verbatim>\<open>types.ts\<close> as records. The objects that come out of
  \<^verbatim>\<open>JSON.parse\<close> are not checked against their interface, and the gateway itself
  parses the text \<^verbatim>\<open>{}\<close> when a response carries none: a top-level field of a parsed
  object is therefore optional here, \<open>None\<close> being JavaScript's \<^verbatim>\<open>undefined\<close>. A field
  that is present has its declared type. The parsed value itself may be \<^verbatim>\<open>null\<close>, the
  value of the text \<^verbatim>\<open>null\<close>: what \<^verbatim>\<open>JSON.parse\<close> returns is an option of the record, \<open>None\<close>
  being \<^verbatim>\<open>null\<close>. (A number, a string or a boolean has none of the fields. Where the
  program tests the value, a falsy one is \<^verbatim>\<open>null\<close> to it; where it reads a field, the value
  is an object without that field.)
\<close>

datatype Platform = YouTube | Instagram | Twitter | Pinterest

datatype MediaType = image | video

record HookVariation =
  "text" :: string
  explanation :: string

record ThumbnailConcept =
  prompt :: string
  style :: string

record SEOData =
  hooks :: "HookVariation list option"
  title :: "string option"
  description :: "string option"
  "keywords" :: "string list option"
  hashtags :: "string list option"

record Controversy =
  topic :: string
  explanation :: string

record AnalysisResult =
  summary :: "string option"
  category :: "string option"
  mood :: "string option"
  sentiment :: "string option"
  controversies :: "Controversy list option"
  keyScenes :: "string list option"

text \<open>The value \<^verbatim>\<open>{ concepts: ThumbnailConcept[] }\<close> that \<^verbatim>\<open>generateThumbnailPrompts\<close> resolves to.\<close>

record ThumbnailPrompts =
  concepts :: "ThumbnailConcept list option"

text \<open>
  \<^verbatim>\<open>HistoryItem\<close>: \<^verbatim>\<open>seo\<close> and \<^verbatim>\<open>thumbnailConcepts\<close> are declared optional; \<^verbatim>\<open>mediaSummary\<close>
  is a copy of \<^verbatim>\<open>analysis.summary\<close>. The field \<^verbatim>\<open>id\<close> is named \<open>id_item\<close>.
\<close>

record HistoryItem =
  id_item :: string
  timestamp :: int
  mediaType :: MediaType
  mediaSummary :: "string option"
  platform :: Platform
  seo :: "SEOData option"
  thumbnailConcepts :: "ThumbnailConcept list option"
  analysis :: AnalysisResult

text \<open>Everything that the code throws or rejects with.\<close>

datatype error =
    SyntaxError          \<comment> \<open>\<^verbatim>\<open>JSON.parse\<close> on text that is not JSON\<close>
  | TypeError            \<comment> \<open>a property read or a method call on \<^verbatim>\<open>undefined\<close>\<close>
  | Error string         \<comment> \<open>\<^verbatim>\<open>throw new Error(message)\<close>\<close>
  | ApiError string      \<comment> \<open>a rejected \<^verbatim>\<open>generateContent\<close> round trip\<close>
  | ReadError            \<comment> \<open>\<^verbatim>\<open>reader.onerror\<close>\<close>


section \<open>JavaScript string operations\<close>

text \<open>\<^verbatim>\<open>s.startsWith(p)\<close>.\<close>

definition startsWith :: "string \<Rightarrow> string \<Rightarrow> bool" where
  "startsWith s p = (take (length p) s = p)"

text \<open>\<^verbatim>\<open>xs.join(sep)\<close> on an array of strings.\<close>

fun join :: "string \<Rightarrow> string list \<Rightarrow> string" where
  "join sep [] = []"
| "join sep [x] = x"
| "join sep (x # y # ys) = x @ sep @ join sep (y # ys)"

text \<open>\<^verbatim>\<open>s.split(c)\<close> for a one-character separator: the result is never empty.\<close>

fun split :: "char \<Rightarrow> string \<Rightarrow> string list" where
  "split c [] = [[]]"
| "split c (x # xs) =
     (if x = c then [] # split c xs
      else (case split c xs of [] \<Rightarrow> [[x]] | y # ys \<Rightarrow> (x # y) # ys))"

text \<open>\<^verbatim>\<open>xs[i]\<close>: \<^verbatim>\<open>undefined\<close> out of range.\<close>

definition at :: "'a list \<Rightarrow> nat \<Rightarrow> 'a option" where
  "at xs i = (if i < length xs then Some (xs ! i) else None)"

text \<open>A value inside a template literal: \<^verbatim>\<open>`${v}`\<close> prints \<^verbatim>\<open>undefined\<close> as that word.\<close>

definition interpolate :: "string option \<Rightarrow> string" where
  "interpolate v = (case v of None \<Rightarrow> ''undefined'' | Some s \<Rightarrow> s)"

text \<open>\<^verbatim>\<open>text || fallback\<close>: \<^verbatim>\<open>undefined\<close> and the empty string are falsy.\<close>

definition orElse :: "string option \<Rightarrow> string \<Rightarrow> string" where
  "orElse v fallback = (case v of None \<Rightarrow> fallback | Some s \<Rightarrow> if s = [] then fallback else s)"

text \<open>\<^verbatim>\<open>n.toString()\<close> for an integer \<open>n\<close> (the value of \<^verbatim>\<open>Date.now()\<close>).\<close>

definition digitChar :: "nat \<Rightarrow> char" where
  "digitChar d = ''0123456789'' ! d"

fun digits :: "nat \<Rightarrow> string" where
  "digits n = (if n < 10 then [digitChar n] else digits (n div 10) @ [digitChar (n mod 10)])"

definition toString :: "int \<Rightarrow> string" where
  "toString n = (if n < 0 then CHR ''-'' # digits (nat (- n)) else digits (nat n))"

text \<open>A \<^verbatim>\<open>Platform\<close> is its own name in the source.\<close>

fun platformName :: "Platform \<Rightarrow> string" where
  "platformName YouTube = ''YouTube''"
| "platformName Instagram = ''Instagram''"
| "platformName Twitter = ''Twitter''"
| "platformName Pinterest = ''Pinterest''"


section \<open>The generative backend (@google/genai)\<close>

text \<open>
  The request object of \<^verbatim>\<open>ai.models.generateContent\<close>, as far as the gateway fills it in,
  and the parts of the response that the gateway reads.
\<close>

datatype Schema =
    STRING "string option"                        \<comment> \<open>\<^verbatim>\<open>Type.STRING\<close>, with its description\<close>
  | ARRAY Schema                                  \<comment> \<open>\<^verbatim>\<open>Type.ARRAY\<close> and its \<^verbatim>\<open>items\<close>\<close>
  | OBJECT "(string \<times> Schema) list" "string list"  \<comment> \<open>\<^verbatim>\<open>Type.OBJECT\<close>: \<^verbatim>\<open>properties\<close>, \<^verbatim>\<open>required\<close>\<close>

datatype Part =
    InlineData "string option" string   \<comment> \<open>\<^verbatim>\<open>{ inlineData: { data, mimeType } }\<close>\<close>
  | Text string                         \<comment> \<open>\<^verbatim>\<open>{ text }\<close>\<close>

datatype Contents =
    Parts "Part list"     \<comment> \<open>\<^verbatim>\<open>contents: { parts: [...] }\<close>\<close>
  | Prompt string         \<comment> \<open>\<^verbatim>\<open>contents: prompt\<close>\<close>

datatype Config =
    JsonConfig Schema          \<comment> \<open>\<^verbatim>\<open>responseMimeType: "application/json"\<close> and the \<^verbatim>\<open>responseSchema\<close>\<close>
  | ImageConfig string string  \<comment> \<open>\<^verbatim>\<open>imageConfig: { aspectRatio, imageSize }\<close>\<close>

record Request =
  model :: string
  contents :: Contents
  config :: Config

record Blob =
  data :: "string option"

record ResponsePart =
  inlineData :: "Blob option"

record Content =
  parts :: "ResponsePart list option"

record Candidate =
  content :: "Content option"

record Response =
  response_text :: "string option"          \<comment> \<open>\<^verbatim>\<open>response.text\<close>\<close>
  candidates :: "Candidate list option"     \<comment> \<open>\<^verbatim>\<open>response.candidates\<close>\<close>

text \<open>
  What the program does not define itself. \<open>generateContent\<close> is one round trip to the
  backend: its outcome may depend on the request and on all the requests made before
  (the first argument, oldest first). \<^verbatim>\<open>JSON.parse\<close> is taken at each of the types at which
  the source uses its result, \<^verbatim>\<open>JSON.stringify\<close> at the history log. The three results that
  the gateway hands on as they are may be \<^verbatim>\<open>null\<close>.
\<close>

record Env =
  generateContent :: "Request list \<Rightarrow> Request \<Rightarrow> error + Response"
  JSON_parse_analysis :: "string \<Rightarrow> error + AnalysisResult option"
  JSON_parse_seo :: "string \<Rightarrow> error + SEOData option"
  JSON_parse_concepts :: "string \<Rightarrow> error + ThumbnailPrompts option"
  JSON_parse_history :: "string \<Rightarrow> error + HistoryItem list"
  JSON_stringify_history :: "HistoryItem list \<Rightarrow> string"

text \<open>\<^verbatim>\<open>await ai.models.generateContent(req)\<close>: the request joins the log whatever the outcome.\<close>

definition roundTrip :: "Env \<Rightarrow> Request \<Rightarrow> Request list \<Rightarrow> (error + Response) \<times> Request list" where
  "roundTrip env req log = (generateContent env log req, log @ [req])"


section \<open>AI gateway (services/geminiService.ts)\<close>

subsection \<open>analyzeMedia\<close>

definition analyzeMedia_text :: "bool \<Rightarrow> string" where
  \<open>analyzeMedia_text isVideo =
     ''Thoroughly analyze this '' @ (if isVideo then ''video'' else ''image'') @ ''. \<newline>'' @
     ''          1. Provide a concise one-sentence summary.\<newline>'' @
     ''          2. Determine the primary category (e.g., Tech, Comedy, Vlog, Educational).\<newline>'' @
     ''          3. Describe the overall mood (e.g., High-energy, Mysterious, Minimalist).\<newline>'' @
     ''          4. Evaluate the overall sentiment (e.g., Highly Positive, Provocative, Neutral, Warning, Empathetic).\<newline>'' @
     ''          5. Identify any potential controversial topics or sensitive themes that might trigger platform algorithms or community guidelines. For each topic, provide a brief explanation of why it might be flagged. If none, return an empty array.\<newline>'' @
     ''          6. '' @
     (if isVideo
      then ''Identify 3-5 key pivotal moments or specific visual highlights that would grab a viewer's attention.''
      else ''Identify 3-5 key visual elements or focal points.'') @
     ''\<newline>'' @
     ''          Output as JSON.''\<close>

definition analyzeMedia_schema :: Schema where
  "analyzeMedia_schema =
     OBJECT
       [(''summary'', STRING None),
        (''category'', STRING None),
        (''mood'', STRING None),
        (''sentiment'', STRING None),
        (''controversies'',
           ARRAY (OBJECT [(''topic'', STRING None), (''explanation'', STRING None)]
                         [''topic'', ''explanation''])),
        (''keyScenes'', ARRAY (STRING None))]
       [''summary'', ''category'', ''mood'', ''sentiment'', ''controversies'', ''keyScenes'']"

definition analyzeMedia_request :: "string option \<Rightarrow> string \<Rightarrow> Request" where
  "analyzeMedia_request base64 mimeType =
     (let isVideo = startsWith mimeType ''video/''
      in \<lparr>model = ''gemini-3-flash-preview'',
          contents = Parts [InlineData base64 mimeType, Text (analyzeMedia_text isVideo)],
          config = JsonConfig analyzeMedia_schema\<rparr>)"

definition analyzeMedia ::
  "Env \<Rightarrow> string option \<Rightarrow> string \<Rightarrow> Request list \<Rightarrow> (error + AnalysisResult option) \<times> Request list"
where
  "analyzeMedia env base64 mimeType log =
     (case roundTrip env (analyzeMedia_request base64 mimeType) log of
        (Inl e, log') \<Rightarrow> (Inl e, log')
      | (Inr response, log') \<Rightarrow>
          (JSON_parse_analysis env (orElse (response_text response) ''{}''), log'))"


subsection \<open>generateSEO\<close>

fun platformStrategies :: "Platform \<Rightarrow> string" where
  \<open>platformStrategies YouTube = ''Focus on high curiosity gaps, storytelling stakes, and "The Mistake" hooks. Use punchy, dramatic language designed to stop the scroll. Titles should be optimized for Click-Through Rate (CTR).''\<close>
| \<open>platformStrategies Instagram = ''Focus on aesthetic descriptors, emotive connection, and "The Save/Share" hooks. Use emojis strategically and keep the language visually evocative. Hooks should be shorter to fit the first 2-3 lines of a caption.''\<close>
| \<open>platformStrategies Twitter = ''Focus on provocative statements, contrarian takes, or data-driven curiosity. Use "Thread Style" hooks that force the user to click "See More". Language should be sharp, intellectual, or highly controversial.''\<close>
| \<open>platformStrategies Pinterest = ''Focus on aspirational "best of" lists, how-to value, and "The Transformation" hooks. Use keyword-rich language that sounds like a search query. Visual aesthetics are key in descriptions.''\<close>

text \<open>The constant \<^verbatim>\<open>controversyContext\<close>, from the controversies that the analysis holds.\<close>

definition controversyContext :: "Controversy list \<Rightarrow> string" where
  "controversyContext cs =
     (if length cs > 0
      then ''Note: Content touches on sensitive topics: '' @ join '', '' (map topic cs) @ ''.''
      else [])"

text \<open>The constant \<^verbatim>\<open>prompt\<close> of \<^verbatim>\<open>generateSEO\<close>.\<close>

definition generateSEO_prompt :: "AnalysisResult \<Rightarrow> Platform \<Rightarrow> string \<Rightarrow> string \<Rightarrow> string" where
  \<open>generateSEO_prompt analysis' platform' scenesContext ctx =
     ''Based on this analysis: "'' @ interpolate (summary analysis') @ ''" ('' @
       interpolate (category analysis') @ '', '' @ interpolate (mood analysis') @ '' mood, '' @
       interpolate (sentiment analysis') @ '' sentiment). \<newline>'' @
     ''  Highlights: '' @ scenesContext @ ''. '' @ ctx @ ''\<newline>'' @
     ''  \<newline>'' @
     ''  Generate a viral SEO package specifically optimized for '' @ platformName platform' @ ''.\<newline>'' @
     ''  Strategy for '' @ platformName platform' @ '': '' @ platformStrategies platform' @ ''\<newline>'' @
     ''  \<newline>'' @
     ''  MANDATORY REQUIREMENTS:\<newline>'' @
     ''  1. Generate 3 different 'working hook' variations. Each hook MUST follow a specific psychological trigger (e.g., Negative Constraint, Outcome-First, Pattern Interrupt).\<newline>'' @
     ''  2. For each hook, provide a "Strategic Insight" explaining why this specific variation works on '' @ platformName platform' @ ''.\<newline>'' @
     ''  3. A viral title optimized for '' @ platformName platform' @ '' algorithms.\<newline>'' @
     ''  4. A platform-native SEO description (YouTube should be long, Twitter should be punchy).\<newline>'' @
     ''  5. 10 highly relevant keywords and 10 trending hashtags for '' @ platformName platform' @ ''.\<newline>'' @
     ''  \<newline>'' @
     ''  Output as JSON.''\<close>

definition generateSEO_schema :: Schema where
  "generateSEO_schema =
     OBJECT
       [(''hooks'',
           ARRAY (OBJECT [(''text'', STRING None), (''explanation'', STRING None)]
                         [''text'', ''explanation''])),
        (''title'', STRING None),
        (''description'', STRING None),
        (''keywords'', ARRAY (STRING None)),
        (''hashtags'', ARRAY (STRING None))]
       [''hooks'', ''title'', ''description'', ''keywords'', ''hashtags'']"

definition generateSEO_request :: "string \<Rightarrow> Request" where
  "generateSEO_request prompt' =
     \<lparr>model = ''gemini-3-flash-preview'',
      contents = Prompt prompt',
      config = JsonConfig generateSEO_schema\<rparr>"

text \<open>
  \<^verbatim>\<open>analysis.keyScenes.join\<close> and \<^verbatim>\<open>analysis.controversies.length\<close> throw a
  \<^verbatim>\<open>TypeError\<close> on an analysis that lacks the field, before any request is made.
\<close>

definition generateSEO ::
  "Env \<Rightarrow> AnalysisResult \<Rightarrow> Platform \<Rightarrow> Request list \<Rightarrow> (error + SEOData option) \<times> Request list"
where
  "generateSEO env analysis' platform' log =
     (case keyScenes analysis' of
        None \<Rightarrow> (Inl TypeError, log)
      | Some scenes \<Rightarrow>
          (let scenesContext = join ''; '' scenes
           in case controversies analysis' of
                None \<Rightarrow> (Inl TypeError, log)
              | Some cs \<Rightarrow>
                  (let prompt' = generateSEO_prompt analysis' platform' scenesContext (controversyContext cs)
                   in case roundTrip env (generateSEO_request prompt') log of
                        (Inl e, log') \<Rightarrow> (Inl e, log')
                      | (Inr response, log') \<Rightarrow>
                          (JSON_parse_seo env (orElse (response_text response) ''{}''), log'))))"


subsection \<open>generateThumbnailPrompts\<close>

definition generateThumbnailPrompts_prompt :: "AnalysisResult \<Rightarrow> string \<Rightarrow> string" where
  \<open>generateThumbnailPrompts_prompt analysis' scenesContext =
     ''Generate 10 dramatic, ultra-clickbait thumbnail prompt ideas for an AI image generator (Nano Banana) based on: "'' @ interpolate (summary analysis') @ ''".\<newline>'' @
     ''  Highlights: '' @ scenesContext @ ''.\<newline>'' @
     ''  \<newline>'' @
     ''  MANDATORY REQUIREMENT: Provide a diverse range of visual aesthetics. You must include at least one prompt for each of these styles:\<newline>'' @
     ''  - 'Hyperrealistic CGI': Unreal Engine 5, Octane render, intricate details, ray-tracing.\<newline>'' @
     ''  - 'Cinematic Lighting': Dramatic noir shadows, volumetric god rays, anamorphic lens flares.\<newline>'' @
     ''  - 'Retro VHS': 90s aesthetic, tracking lines, color bleed, lo-fi glitch.\<newline>'' @
     ''  - 'Minimalist Flat': Clean vector lines, bold flat colors, modern typography integration.\<newline>'' @
     ''  - 'Surreal Abstract': Liquid metal textures, impossible geometry, neon ethereal glows.\<newline>'' @
     ''  - 'Documentary Raw': Grainy film stock, high ISO, handheld shaky-cam look, authentic.\<newline>'' @
     ''  - 'Glitchcore': Distorted digital artifacts, vibrant clashing colors, pixelation, data-moshing vibes, hyper-saturated.\<newline>'' @
     ''  - 'Cyberpunk Neon': Dystopian high-tech, rain-slicked futuristic streets, glowing cyan and magenta signage, techwear fashion.\<newline>'' @
     ''  - 'Pastel Goth': Cute meets creepy, soft pink and lavender palettes paired with dark gothic motifs, bats, lace, and eerie symbols.\<newline>'' @
     ''  - 'Lo-fi Anime Aesthetic': 90s retro anime style, soft film grain, cozy interior lighting, city pop color palettes, nostalgic atmosphere.\<newline>'' @
     ''  \<newline>'' @
     ''  Each prompt should be 2-3 sentences long, describing the scene with technical image generation keywords.\<newline>'' @
     ''  Output as a JSON object with a 'concepts' array containing objects with 'prompt' and 'style' fields.''\<close>

definition generateThumbnailPrompts_schema :: Schema where
  "generateThumbnailPrompts_schema =
     OBJECT
       [(''concepts'',
           ARRAY (OBJECT
                    [(''prompt'', STRING None),
                     (''style'', STRING (Some (''The aesthetic style name, e.g., '' @ [CHR 0x27] @ ''Glitchcore'' @ [CHR 0x27])))]
                    [''prompt'', ''style'']))]
       [''concepts'']"

definition generateThumbnailPrompts_request :: "string \<Rightarrow> Request" where
  "generateThumbnailPrompts_request prompt' =
     \<lparr>model = ''gemini-3-flash-preview'',
      contents = Prompt prompt',
      config = JsonConfig generateThumbnailPrompts_schema\<rparr>"

definition generateThumbnailPrompts ::
  "Env \<Rightarrow> AnalysisResult \<Rightarrow> Request list \<Rightarrow> (error + ThumbnailPrompts option) \<times> Request list"
where
  \<open>generateThumbnailPrompts env analysis' log =
     (case keyScenes analysis' of
        None \<Rightarrow> (Inl TypeError, log)
      | Some scenes \<Rightarrow>
          (let scenesContext = join '', '' scenes;
               prompt' = generateThumbnailPrompts_prompt analysis' scenesContext
           in case roundTrip env (generateThumbnailPrompts_request prompt') log of
                (Inl e, log') \<Rightarrow> (Inl e, log')
              | (Inr response, log') \<Rightarrow>
                  (JSON_parse_concepts env (orElse (response_text response) ''{"concepts":[]}''), log')))\<close>


subsection \<open>generateNanoBananaImage\<close>

definition generateNanoBananaImage_request :: "string \<Rightarrow> Request" where
  "generateNanoBananaImage_request prompt' =
     \<lparr>model = ''gemini-2.5-flash-image'',
      contents = Parts [Text prompt'],
      config = ImageConfig ''16:9'' ''1K''\<rparr>"

text \<open>
  \<^verbatim>\<open>response.candidates?.[0]?.content?.parts.find(p => p.inlineData)\<close>: each \<^verbatim>\<open>?.\<close> ends the
  chain with \<^verbatim>\<open>undefined\<close>; \<^verbatim>\<open>parts\<close> is read without one, so that a content without
  parts is a \<^verbatim>\<open>TypeError\<close>.
\<close>

definition findInlineData :: "Response \<Rightarrow> error + ResponsePart option" where
  "findInlineData response =
     (case candidates response of
        None \<Rightarrow> Inr None
      | Some cs \<Rightarrow>
          (case at cs 0 of
             None \<Rightarrow> Inr None
           | Some c \<Rightarrow>
               (case content c of
                  None \<Rightarrow> Inr None
                | Some ct \<Rightarrow>
                    (case parts ct of
                       None \<Rightarrow> Inl TypeError
                     | Some ps \<Rightarrow> Inr (find (\<lambda>p. inlineData p \<noteq> None) ps)))))"

definition generateNanoBananaImage ::
  "Env \<Rightarrow> string \<Rightarrow> Request list \<Rightarrow> (error + string) \<times> Request list"
where
  "generateNanoBananaImage env prompt' log =
     (case roundTrip env (generateNanoBananaImage_request prompt') log of
        (Inl e, log') \<Rightarrow> (Inl e, log')
      | (Inr response, log') \<Rightarrow>
          (case findInlineData response of
             Inl e \<Rightarrow> (Inl e, log')
           | Inr part \<Rightarrow>
               (case (case part of None \<Rightarrow> None | Some p \<Rightarrow> inlineData p) of
                  Some blob \<Rightarrow> (Inr (''data:image/png;base64,'' @ interpolate (data blob)), log')
                | None \<Rightarrow> (Inl (Error ''No image generated''), log'))))"


section \<open>The application (App.tsx)\<close>

subsection \<open>Media ingestion\<close>

text \<open>
  A browser \<^verbatim>\<open>File\<close>, by what the program asks of it: \<^verbatim>\<open>file.type\<close>, the outcome of
  \<^verbatim>\<open>FileReader.readAsDataURL\<close> (\<open>Inl\<close> when \<^verbatim>\<open>reader.onerror\<close> fires) and the handle that
  \<^verbatim>\<open>URL.createObjectURL\<close> returns for it.
\<close>

record File =
  file_type :: string
  readAsDataURL :: "error + string"
  createObjectURL :: string

text \<open>\<^verbatim>\<open>(reader.result as string).split(',')[1]\<close>.\<close>

definition fileToBase64 :: "File \<Rightarrow> error + string option" where
  "fileToBase64 file' =
     (case readAsDataURL file' of
        Inl e \<Rightarrow> Inl e
      | Inr result \<Rightarrow> Inr (at (split CHR '','' result) 1))"


subsection \<open>State\<close>

record MediaState =
  "file" :: "File option"
  preview :: "string option"
  type :: "MediaType option"
  base64 :: "string option"

datatype LoadingStep = idle | analyzing | optimizing | visualizing

text \<open>The \<^verbatim>\<open>useState\<close> cells of the component \<^verbatim>\<open>App\<close>, \<open>None\<close> for \<^verbatim>\<open>null\<close>.\<close>

record AppState =
  media :: MediaState
  loadingStep :: LoadingStep
  analysis :: "AnalysisResult option"
  platform :: Platform
  seo :: "SEOData option"
  thumbnailConcepts :: "ThumbnailConcept list option"
  generatedThumbnail :: "string option"
  activePrompt :: "string option"
  genImgLoading :: bool
  history :: "HistoryItem list"
  showVault :: bool

definition initialState :: AppState where
  "initialState =
     \<lparr>media = \<lparr>file = None, preview = None, type = None, base64 = None\<rparr>,
      loadingStep = idle,
      analysis = None,
      platform = YouTube,
      seo = None,
      thumbnailConcepts = Some [],
      generatedThumbnail = None,
      activePrompt = None,
      genImgLoading = False,
      history = [],
      showVault = False\<rparr>"

text \<open>
  A call of one of the four gateway functions, with its arguments. The pipeline hands the
  result of the analysis to \<^verbatim>\<open>generateSEO\<close> as it is, \<^verbatim>\<open>null\<close> included.
\<close>

datatype GatewayCall =
    AnalyzeMedia "string option" string
  | GenerateSEO "AnalysisResult option" Platform
  | GenerateThumbnailPrompts AnalysisResult
  | GenerateNanoBananaImage string

text \<open>
  The component's state together with what it acts on: the item \<^verbatim>\<open>viralvision_v2\<close> of
  \<^verbatim>\<open>localStorage\<close>, the requests sent to the backend, what \<^verbatim>\<open>console.error\<close> printed, the
  errors that left a handler, an effect or a render uncaught, and whether the page is up.
  The last two fields are not state of the program: \<open>invoked\<close> records the gateway calls
  made and \<open>committed\<close> every record ever put into the history, newest first, so that
  properties of the traces can be stated.
\<close>

record World =
  app :: AppState
  localStorage :: "string option"
  requests :: "Request list"
  console :: "error list"
  uncaught :: "error list"
  mounted :: bool
  invoked :: "GatewayCall list"
  committed :: "HistoryItem list"

definition setMedia :: "MediaState \<Rightarrow> World \<Rightarrow> World" where
  "setMedia v w = w\<lparr>app := (app w)\<lparr>media := v\<rparr>\<rparr>"

definition setLoadingStep :: "LoadingStep \<Rightarrow> World \<Rightarrow> World" where
  "setLoadingStep v w = w\<lparr>app := (app w)\<lparr>loadingStep := v\<rparr>\<rparr>"

definition setAnalysis :: "AnalysisResult option \<Rightarrow> World \<Rightarrow> World" where
  "setAnalysis v w = w\<lparr>app := (app w)\<lparr>analysis := v\<rparr>\<rparr>"

definition setPlatform :: "Platform \<Rightarrow> World \<Rightarrow> World" where
  "setPlatform v w = w\<lparr>app := (app w)\<lparr>platform := v\<rparr>\<rparr>"

definition setSeo :: "SEOData option \<Rightarrow> World \<Rightarrow> World" where
  "setSeo v w = w\<lparr>app := (app w)\<lparr>seo := v\<rparr>\<rparr>"

definition setThumbnailConcepts :: "ThumbnailConcept list option \<Rightarrow> World \<Rightarrow> World" where
  "setThumbnailConcepts v w = w\<lparr>app := (app w)\<lparr>thumbnailConcepts := v\<rparr>\<rparr>"

definition setGeneratedThumbnail :: "string option \<Rightarrow> World \<Rightarrow> World" where
  "setGeneratedThumbnail v w = w\<lparr>app := (app w)\<lparr>generatedThumbnail := v\<rparr>\<rparr>"

definition setActivePrompt :: "string option \<Rightarrow> World \<Rightarrow> World" where
  "setActivePrompt v w = w\<lparr>app := (app w)\<lparr>activePrompt := v\<rparr>\<rparr>"

definition setGenImgLoading :: "bool \<Rightarrow> World \<Rightarrow> World" where
  "setGenImgLoading v w = w\<lparr>app := (app w)\<lparr>genImgLoading := v\<rparr>\<rparr>"

definition setShowVault :: "bool \<Rightarrow> World \<Rightarrow> World" where
  "setShowVault v w = w\<lparr>app := (app w)\<lparr>showVault := v\<rparr>\<rparr>"

text \<open>\<^verbatim>\<open>setHistory(prev => f(prev))\<close>.\<close>

definition setHistory :: "(HistoryItem list \<Rightarrow> HistoryItem list) \<Rightarrow> World \<Rightarrow> World" where
  "setHistory f w = w\<lparr>app := (app w)\<lparr>history := f (history (app w))\<rparr>\<rparr>"

text \<open>\<^verbatim>\<open>console.error(err)\<close>.\<close>

definition console_error :: "error \<Rightarrow> World \<Rightarrow> World" where
  "console_error err w = w\<lparr>console := console w @ [err]\<rparr>"

text \<open>An error that nothing catches: it leaves the handler (or the effect) that raised it.\<close>

definition throw :: "error \<Rightarrow> World \<Rightarrow> World" where
  "throw err w = w\<lparr>uncaught := uncaught w @ [err]\<rparr>"

text \<open>\<^verbatim>\<open>xs.slice(i, j)\<close> for indices \<open>0 \<le> i\<close> and \<open>0 \<le> j\<close>.\<close>

definition slice :: "nat \<Rightarrow> nat \<Rightarrow> 'a list \<Rightarrow> 'a list" where
  "slice i j xs = drop i (take j xs)"


subsection \<open>Rendering\<close>

text \<open>
  The JSX that \<^verbatim>\<open>App\<close> returns prints and compares the state cells, and in five places it
  calls a method on one of them. Under \<^verbatim>\<open>analysis &&\<close> (line 210) it reads
  \<^verbatim>\<open>analysis.controversies.length\<close> (line 222); under \<^verbatim>\<open>seo ?\<close> (line 258) it calls
  \<^verbatim>\<open>seo.hooks.map\<close> (line 266), \<^verbatim>\<open>seo.keywords.map\<close> (line 294), \<^verbatim>\<open>seo.hashtags.map\<close>
  (line 317) and \<^verbatim>\<open>thumbnailConcepts.map\<close> (line 366). Each of them throws a \<^verbatim>\<open>TypeError\<close>
  when the array is \<^verbatim>\<open>undefined\<close>; nothing else in the JSX can throw. The vault reads the
  records of the history with \<^verbatim>\<open>item.seo?.title\<close>.
\<close>

definition rendersAnalysis :: "AnalysisResult option \<Rightarrow> bool" where
  "rendersAnalysis analysis' =
     (case analysis' of
        None \<Rightarrow> True
      | Some a \<Rightarrow> controversies a \<noteq> None)"

definition rendersStrategy :: "SEOData option \<Rightarrow> ThumbnailConcept list option \<Rightarrow> bool" where
  "rendersStrategy seo' thumbnailConcepts' =
     (case seo' of
        None \<Rightarrow> True
      | Some s \<Rightarrow> hooks s \<noteq> None \<and> keywords s \<noteq> None \<and> hashtags s \<noteq> None \<and>
                  thumbnailConcepts' \<noteq> None)"

definition renders :: "AppState \<Rightarrow> bool" where
  "renders s = (rendersAnalysis (analysis s) \<and> rendersStrategy (seo s) (thumbnailConcepts s))"

text \<open>
  React renders the updates queued since the last render: \<open>shown\<close> is the world as the
  page last showed it, \<open>w\<close> the world with the updates. The page has no error boundary: a
  render that throws is uncaught, React unmounts the page, and neither the updates of that
  render nor the ones queued after it take effect.
\<close>

definition render :: "World \<Rightarrow> World \<Rightarrow> World" where
  "render shown w =
     (if \<not> mounted w then w\<lparr>app := app shown, committed := committed shown\<rparr>
      else if renders (app w) then w
      else (throw TypeError w)\<lparr>app := app shown, committed := committed shown, mounted := False\<rparr>)"

text \<open>
  \<^verbatim>\<open>await\<close> of a gateway call. When the call has sent its request the handler waits for
  the backend, and React renders in the meantime; a call that threw before its request is
  over at once, and the updates stay queued. The result is the world as the page shows it
  and the world in which the handler goes on.
\<close>

definition await :: "bool \<Rightarrow> World \<Rightarrow> World \<Rightarrow> World \<times> World" where
  "await sent shown w = (if sent then (let w' = render shown w in (w', w')) else (shown, w))"


subsection \<open>The history store\<close>

text \<open>
  The first effect: \<^verbatim>\<open>if (saved) setHistory(JSON.parse(saved))\<close>, with nothing around it. It
  gives the world it leaves and the error if \<^verbatim>\<open>JSON.parse\<close> threw one.
\<close>

definition loadHistory :: "Env \<Rightarrow> World \<Rightarrow> error option \<times> World" where
  "loadHistory env w =
     (case localStorage w of
        None \<Rightarrow> (None, w)
      | Some saved \<Rightarrow>
          if saved = [] then (None, w)
          else (case JSON_parse_history env saved of
                  Inl e \<Rightarrow> (Some e, w)
                | Inr parsed \<Rightarrow> (None, setHistory (\<lambda>_. parsed) w)))"

text \<open>The second effect, run at the start and whenever \<^verbatim>\<open>history\<close> has changed.\<close>

definition persistHistory :: "Env \<Rightarrow> World \<Rightarrow> World" where
  "persistHistory env w = w\<lparr>localStorage := Some (JSON_stringify_history env (history (app w)))\<rparr>"

text \<open>
  Opening the page: the state cells take their initial values and the effects run in
  their order, after which the page is up. An error thrown by the first effect leaves the
  component uncaught and takes the page down; the model does not run the second effect
  after it. The store, the logs and the instrumentation outlive the page.
\<close>

definition mount :: "Env \<Rightarrow> World \<Rightarrow> World" where
  "mount env w =
     (case loadHistory env (w\<lparr>app := initialState\<rparr>) of
        (None, w1) \<Rightarrow> persistHistory env (w1\<lparr>mounted := True\<rparr>)
      | (Some e, w1) \<Rightarrow> (throw e w1)\<lparr>mounted := False\<rparr>)"

text \<open>The updater of line 98: \<^verbatim>\<open>prev => [historyItem, ...prev].slice(0, 20)\<close>.\<close>

definition insertHistory :: "HistoryItem \<Rightarrow> HistoryItem list \<Rightarrow> HistoryItem list" where
  "insertHistory historyItem prev = slice 0 20 (historyItem # prev)"

text \<open>The click on a record of the vault.\<close>

definition recallItem :: "HistoryItem \<Rightarrow> World \<Rightarrow> World" where
  "recallItem item w =
     setShowVault False
       (setPlatform (HistoryItem.platform item)
         (setThumbnailConcepts
            (case HistoryItem.thumbnailConcepts item of None \<Rightarrow> Some [] | Some cs \<Rightarrow> Some cs)
           (setSeo (HistoryItem.seo item)
             (setAnalysis (Some (HistoryItem.analysis item)) w))))"


subsection \<open>processFlow\<close>

text \<open>
  The body of the \<^verbatim>\<open>try\<close> block, started with the page as it is shown and with the world
  that holds the updates queued so far. It gives the error if one was thrown, the page as
  it is shown when the block is left and the world with the updates queued since. The
  two readings of \<^verbatim>\<open>Date.now()\<close> are the arguments \<open>now_id\<close> and \<open>now_ts\<close>.

  \<^item> \<^verbatim>\<open>generateSEO(null, ...)\<close> throws a \<^verbatim>\<open>TypeError\<close> at \<^verbatim>\<open>analysis.keyScenes\<close>, before any
    request.
  \<^item> \<^verbatim>\<open>thumbRes.concepts\<close> (line 85) throws a \<^verbatim>\<open>TypeError\<close> when \<^verbatim>\<open>thumbRes\<close> is \<^verbatim>\<open>null\<close>.
  \<^item> The record that \<^verbatim>\<open>setHistory\<close> inserts is counted in \<open>committed\<close> with the update; like
    the update it is dropped when the render fails.
\<close>

definition processFlow_try ::
  "Env \<Rightarrow> File \<Rightarrow> MediaType \<Rightarrow> string option \<Rightarrow> Platform \<Rightarrow> int \<Rightarrow> int \<Rightarrow> World \<Rightarrow> World \<Rightarrow>
     error option \<times> World \<times> World"
where
  "processFlow_try env file' type' base64' selectedPlatform now_id now_ts shown w =
     (let w1 = setLoadingStep analyzing w;
          (r1, log1) = analyzeMedia env base64' (file_type file') (requests w1);
          (shown2, w2) =
             await (log1 \<noteq> requests w1) shown
               (w1\<lparr>requests := log1, invoked := invoked w1 @ [AnalyzeMedia base64' (file_type file')]\<rparr>)
      in case r1 of
           Inl err \<Rightarrow> (Some err, shown2, w2)
         | Inr analysisRes \<Rightarrow>
             (let w3 = setLoadingStep optimizing (setAnalysis analysisRes w2)
              in case analysisRes of
                   None \<Rightarrow>
                     (Some TypeError, shown2,
                      w3\<lparr>invoked := invoked w3 @ [GenerateSEO None selectedPlatform]\<rparr>)
                 | Some analysis' \<Rightarrow>
                     (let (r2, log2) = generateSEO env analysis' selectedPlatform (requests w3);
                          (shown4, w4) =
                             await (log2 \<noteq> requests w3) shown2
                               (w3\<lparr>requests := log2,
                                   invoked := invoked w3 @ [GenerateSEO (Some analysis') selectedPlatform]\<rparr>)
                      in case r2 of
                           Inl err \<Rightarrow> (Some err, shown4, w4)
                         | Inr seoRes \<Rightarrow>
                             (let w5 = setLoadingStep visualizing (setSeo seoRes w4);
                                  (r3, log3) = generateThumbnailPrompts env analysis' (requests w5);
                                  (shown6, w6) =
                                     await (log3 \<noteq> requests w5) shown4
                                       (w5\<lparr>requests := log3,
                                           invoked := invoked w5 @ [GenerateThumbnailPrompts analysis']\<rparr>)
                              in case r3 of
                                   Inl err \<Rightarrow> (Some err, shown6, w6)
                                 | Inr None \<Rightarrow> (Some TypeError, shown6, w6)
                                 | Inr (Some thumbRes) \<Rightarrow>
                                     (let w7 = setThumbnailConcepts (concepts thumbRes) w6;
                                          historyItem =
                                            \<lparr>id_item = toString now_id,
                                             timestamp = now_ts,
                                             mediaType = type',
                                             mediaSummary = summary analysis',
                                             platform = selectedPlatform,
                                             seo = seoRes,
                                             thumbnailConcepts = concepts thumbRes,
                                             analysis = analysis'\<rparr>;
                                          w8 = setHistory (insertHistory historyItem) w7
                                      in (None, shown6, w8\<lparr>committed := historyItem # committed w8\<rparr>))))))"

text \<open>
  \<^verbatim>\<open>processFlow(file, selectedPlatform = platform)\<close>. A file that cannot be read rejects
  before anything is set; after that, whatever the \<^verbatim>\<open>try\<close> block throws is caught and
  printed, and \<^verbatim>\<open>finally\<close> sets the step back. The page is shown as it is when the handler
  starts, and React renders what is still queued when the handler has ended.
\<close>

definition processFlow :: "Env \<Rightarrow> File \<Rightarrow> Platform option \<Rightarrow> int \<Rightarrow> int \<Rightarrow> World \<Rightarrow> World" where
  "processFlow env file' selectedPlatform_arg now_id now_ts w =
     (let selectedPlatform = (case selectedPlatform_arg of None \<Rightarrow> platform (app w) | Some p \<Rightarrow> p);
          type' = (if startsWith (file_type file') ''video'' then video else image);
          preview' = createObjectURL file'
      in case fileToBase64 file' of
           Inl e \<Rightarrow> throw e w
         | Inr base64' \<Rightarrow>
             (let w1 = setMedia \<lparr>file = Some file', preview = Some preview', type = Some type', base64 = base64'\<rparr> w;
                  w2 = setAnalysis None w1;
                  w3 = setSeo None w2;
                  w4 = setThumbnailConcepts (Some []) w3;
                  w5 = setGeneratedThumbnail None w4;
                  (thrown, shown, w6) =
                     processFlow_try env file' type' base64' selectedPlatform now_id now_ts w w5;
                  w7 = (case thrown of None \<Rightarrow> w6 | Some err \<Rightarrow> console_error err w6);
                  w8 = setLoadingStep idle w7
              in render shown w8))"


subsection \<open>handlePlatformChange\<close>

text \<open>There is no \<^verbatim>\<open>try\<close> here: a failed \<^verbatim>\<open>generateSEO\<close> leaves the handler at the \<^verbatim>\<open>await\<close>.\<close>

definition handlePlatformChange :: "Env \<Rightarrow> Platform \<Rightarrow> World \<Rightarrow> World" where
  "handlePlatformChange env newPlatform w =
     (let w1 = setPlatform newPlatform w
      in case analysis (app w) of
           None \<Rightarrow> w1
         | Some analysis' \<Rightarrow>
             (let w2 = setLoadingStep optimizing w1;
                  (r, log') = generateSEO env analysis' newPlatform (requests w2);
                  w3 = w2\<lparr>requests := log', invoked := invoked w2 @ [GenerateSEO (Some analysis') newPlatform]\<rparr>
              in case r of
                   Inl err \<Rightarrow> throw err w3
                 | Inr seoRes \<Rightarrow> setLoadingStep idle (setSeo seoRes w3)))"


subsection \<open>handleForgeThumbnail\<close>

definition handleForgeThumbnail :: "Env \<Rightarrow> string \<Rightarrow> World \<Rightarrow> World" where
  "handleForgeThumbnail env prompt' w =
     (let w1 = setGenImgLoading True w;
          w2 = setActivePrompt (Some prompt') w1;
          (r, log') = generateNanoBananaImage env prompt' (requests w2);
          w3 = w2\<lparr>requests := log', invoked := invoked w2 @ [GenerateNanoBananaImage prompt']\<rparr>;
          w4 = (case r of
                  Inr img \<Rightarrow> setGeneratedThumbnail (Some img) w3
                | Inl err \<Rightarrow> console_error err w3)
      in setGenImgLoading False w4)"

text \<open>
  What lines 333 to 341 show: the rendered thumbnail, when there is one, with the active
  prompt as its caption. They stand inside \<^verbatim>\<open>seo ? (...)\<close> of line 258: without an SEO
  package the page shows no thumbnail.
\<close>

definition renderedThumbnail :: "AppState \<Rightarrow> (string \<times> string option) option" where
  "renderedThumbnail s =
     (case seo s of
        None \<Rightarrow> None
      | Some seo' \<Rightarrow>
          (case generatedThumbnail s of
             None \<Rightarrow> None
           | Some img \<Rightarrow> if img = [] then None else Some (img, activePrompt s)))"


subsection \<open>Reachable worlds\<close>

text \<open>
  A browser that never ran the program, and the worlds the program can bring it to: the
  page is opened, and then each command runs to its end before the next one starts. The
  second effect follows \<^verbatim>\<open>processFlow\<close>, the one command that sets \<^verbatim>\<open>history\<close>. The
  commands are not restricted to a page that is up: these worlds include the ones that
  the program reaches.
\<close>

definition freshWorld :: World where
  "freshWorld =
     \<lparr>app = initialState, localStorage = None, requests = [], console = [], uncaught = [],
      mounted = False, invoked = [], committed = []\<rparr>"

inductive reachable :: "Env \<Rightarrow> World \<Rightarrow> bool" for env :: Env where
  opened: "reachable env (mount env freshWorld)"
| reopened: "reachable env w \<Longrightarrow> reachable env (mount env w)"
| submit_media:
    "reachable env w \<Longrightarrow>
     reachable env (persistHistory env (processFlow env file' selectedPlatform_arg now_id now_ts w))"
| change_platform: "reachable env w \<Longrightarrow> reachable env (handlePlatformChange env newPlatform w)"
| forge_thumbnail: "reachable env w \<Longrightarrow> reachable env (handleForgeThumbnail env prompt' w)"
| recall_run:
    "reachable env w \<Longrightarrow> item \<in> set (history (app w)) \<Longrightarrow> reachable env (recallItem item w)"
| show_vault: "reachable env w \<Longrightarrow> reachable env (setShowVault b w)"


section \<open>What the properties speak of\<close>

text \<open>The object \<^verbatim>\<open>{}\<close> at the type of an analysis: no field is there.\<close>

definition emptyObject :: AnalysisResult where
  "emptyObject =
     \<lparr>summary = None, category = None, mood = None, sentiment = None,
      controversies = None, keyScenes = None\<rparr>"

text \<open>
  Every inline payload that a response carries, in any part of any candidate: a response
  with no image payload is one for which this list is empty.
\<close>

definition inlinePayloads :: "Response \<Rightarrow> Blob list" where
  "inlinePayloads response =
     concat (map (\<lambda>c. case content c of
                         None \<Rightarrow> []
                       | Some ct \<Rightarrow> (case parts ct of None \<Rightarrow> [] | Some ps \<Rightarrow> List.map_filter inlineData ps))
                 (case candidates response of None \<Rightarrow> [] | Some cs \<Rightarrow> cs))"

text \<open>The ten style names that the prompt of \<^verbatim>\<open>generateThumbnailPrompts\<close> lists.\<close>

definition thumbnailStyles :: "string list" where
  "thumbnailStyles =
     [''Hyperrealistic CGI'', ''Cinematic Lighting'', ''Retro VHS'', ''Minimalist Flat'',
      ''Surreal Abstract'', ''Documentary Raw'', ''Glitchcore'', ''Cyberpunk Neon'',
      ''Pastel Goth'', ''Lo-fi Anime Aesthetic'']"

text \<open>A batch of exactly ten concepts whose styles cover each of the ten names.\<close>

definition completeBatch :: "ThumbnailConcept list \<Rightarrow> bool" where
  "completeBatch cs = (length cs = 10 \<and> list_all (\<lambda>s. s \<in> set (map style cs)) thumbnailStyles)"


section \<open>Encoding history logs\<close>

text \<open>
  The records of a history log are built from strings, integers and lists: they can be
  numbered, which gives the concrete environment below a serialisation that can be read
  back.
\<close>

instance Platform :: countable
  by countable_datatype

instance MediaType :: countable
  by countable_datatype

instance HookVariation_ext :: (countable) countable
proof (rule countable_classI [of "\<lambda>r. to_nat (text r, HookVariation.explanation r, HookVariation.more r)"])
  fix x y :: "'a HookVariation_scheme"
  assume "to_nat (text x, HookVariation.explanation x, HookVariation.more x)
        = to_nat (text y, HookVariation.explanation y, HookVariation.more y)"
  then show "x = y" by (cases x, cases y) simp
qed

instance ThumbnailConcept_ext :: (countable) countable
proof (rule countable_classI [of "\<lambda>r. to_nat (prompt r, style r, ThumbnailConcept.more r)"])
  fix x y :: "'a ThumbnailConcept_scheme"
  assume "to_nat (prompt x, style x, ThumbnailConcept.more x) = to_nat (prompt y, style y, ThumbnailConcept.more y)"
  then show "x = y" by (cases x, cases y) simp
qed

instance SEOData_ext :: (countable) countable
proof (rule countable_classI [of "\<lambda>r. to_nat (hooks r, title r, description r, keywords r, hashtags r, SEOData.more r)"])
  fix x y :: "'a SEOData_scheme"
  assume "to_nat (hooks x, title x, description x, keywords x, hashtags x, SEOData.more x)
        = to_nat (hooks y, title y, description y, keywords y, hashtags y, SEOData.more y)"
  then show "x = y" by (cases x, cases y) simp
qed

instance Controversy_ext :: (countable) countable
proof (rule countable_classI [of "\<lambda>r. to_nat (topic r, Controversy.explanation r, Controversy.more r)"])
  fix x y :: "'a Controversy_scheme"
  assume "to_nat (topic x, Controversy.explanation x, Controversy.more x)
        = to_nat (topic y, Controversy.explanation y, Controversy.more y)"
  then show "x = y" by (cases x, cases y) simp
qed

instance AnalysisResult_ext :: (countable) countable
proof (rule countable_classI [of "\<lambda>r. to_nat (summary r, category r, mood r, sentiment r, controversies r, keyScenes r, AnalysisResult.more r)"])
  fix x y :: "'a AnalysisResult_scheme"
  assume "to_nat (summary x, category x, mood x, sentiment x, controversies x, keyScenes x, AnalysisResult.more x)
        = to_nat (summary y, category y, mood y, sentiment y, controversies y, keyScenes y, AnalysisResult.more y)"
  then show "x = y" by (cases x, cases y) simp
qed

instance HistoryItem_ext :: (countable) countable
proof (rule countable_classI [of "\<lambda>r. to_nat (id_item r, timestamp r, mediaType r, mediaSummary r,
    HistoryItem.platform r, HistoryItem.seo r, HistoryItem.thumbnailConcepts r, HistoryItem.analysis r, HistoryItem.more r)"])
  fix x y :: "'a HistoryItem_scheme"
  assume "to_nat (id_item x, timestamp x, mediaType x, mediaSummary x,
    HistoryItem.platform x, HistoryItem.seo x, HistoryItem.thumbnailConcepts x, HistoryItem.analysis x, HistoryItem.more x)
        = to_nat (id_item y, timestamp y, mediaType y, mediaSummary y,
    HistoryItem.platform y, HistoryItem.seo y, HistoryItem.thumbnailConcepts y, HistoryItem.analysis y, HistoryItem.more y)"
  then show "x = y" by (cases x, cases y) simp
qed


section \<open>A concrete environment\<close>

text \<open>
  Sample values and a small environment on which the theorems below are run: a backend
  that answers the \<open>n\<close>-th request with the \<open>n\<close>-th outcome of a script (and is offline
  after that), and a \<^verbatim>\<open>JSON.parse\<close> that knows the texts of the samples.
\<close>

definition sampleAnalysis :: AnalysisResult where
  "sampleAnalysis =
     \<lparr>summary = Some ''A cat jumps.'', category = Some ''Comedy'', mood = Some ''Playful'',
      sentiment = Some ''Positive'', controversies = Some [],
      keyScenes = Some [''the jump'', ''the landing'']\<rparr>"

definition sampleAnalysis_json :: string where
  \<open>sampleAnalysis_json =
     ''{"summary":"A cat jumps.","category":"Comedy","mood":"Playful","sentiment":"Positive","controversies":[],"keyScenes":["the jump","the landing"]}''\<close>

definition sampleSEO :: SEOData where
  "sampleSEO =
     \<lparr>hooks = Some [\<lparr>text = ''Wait for it'', explanation = ''Pattern Interrupt''\<rparr>],
      title = Some ''Cat'', description = Some ''A cat.'', keywords = Some [''cat''],
      hashtags = Some [''#cat'']\<rparr>"

definition sampleSEO_json :: string where
  \<open>sampleSEO_json =
     ''{"hooks":[{"text":"Wait for it","explanation":"Pattern Interrupt"}],"title":"Cat","description":"A cat.","keywords":["cat"],"hashtags":["#cat"]}''\<close>

definition sampleConcepts :: ThumbnailPrompts where
  "sampleConcepts = \<lparr>concepts = Some [\<lparr>prompt = ''A cat in neon rain.'', style = ''Cyberpunk Neon''\<rparr>]\<rparr>"

definition sampleConcepts_json :: string where
  \<open>sampleConcepts_json =
     ''{"concepts":[{"prompt":"A cat in neon rain.","style":"Cyberpunk Neon"}]}''\<close>

text \<open>A batch of two concepts, each with its own prompt.\<close>

definition twoConcepts :: ThumbnailPrompts where
  "twoConcepts =
     \<lparr>concepts = Some [\<lparr>prompt = ''A cat in neon rain.'', style = ''Cyberpunk Neon''\<rparr>,
                       \<lparr>prompt = ''A cat in pastel fog.'', style = ''Pastel Goth''\<rparr>]\<rparr>"

definition twoConcepts_json :: string where
  \<open>twoConcepts_json =
     ''{"concepts":[{"prompt":"A cat in neon rain.","style":"Cyberpunk Neon"},{"prompt":"A cat in pastel fog.","style":"Pastel Goth"}]}''\<close>

definition demo_parse_analysis :: "string \<Rightarrow> error + AnalysisResult option" where
  "demo_parse_analysis s =
     (if s = sampleAnalysis_json then Inr (Some sampleAnalysis)
      else if s = ''{}'' then Inr (Some emptyObject)
      else if s = ''null'' then Inr None
      else Inl SyntaxError)"

text \<open>The object \<^verbatim>\<open>{}\<close> at the type of an SEO package.\<close>

definition blankSEO :: SEOData where
  "blankSEO = \<lparr>hooks = None, title = None, description = None, keywords = None, hashtags = None\<rparr>"

definition demo_parse_seo :: "string \<Rightarrow> error + SEOData option" where
  "demo_parse_seo s =
     (if s = sampleSEO_json then Inr (Some sampleSEO)
      else if s = ''{}'' then Inr (Some blankSEO)
      else if s = ''null'' then Inr None
      else Inl SyntaxError)"

definition demo_parse_concepts :: "string \<Rightarrow> error + ThumbnailPrompts option" where
  \<open>demo_parse_concepts s =
     (if s = sampleConcepts_json then Inr (Some sampleConcepts)
      else if s = twoConcepts_json then Inr (Some twoConcepts)
      else if s = ''{"concepts":[]}'' then Inr (Some \<lparr>concepts = Some []\<rparr>)
      else if s = ''{}'' then Inr (Some \<lparr>concepts = None\<rparr>)
      else if s = ''null'' then Inr None
      else Inl SyntaxError)\<close>

definition scriptedBackend :: "(error + Response) list \<Rightarrow> Request list \<Rightarrow> Request \<Rightarrow> error + Response" where
  "scriptedBackend script log req =
     (case at script (length log) of
        None \<Rightarrow> Inl (ApiError ''offline'')
      | Some outcome \<Rightarrow> outcome)"

definition textResponse :: "string \<Rightarrow> error + Response" where
  "textResponse s = Inr \<lparr>response_text = Some s, candidates = None\<rparr>"

definition noTextResponse :: "error + Response" where
  "noTextResponse = Inr \<lparr>response_text = None, candidates = None\<rparr>"


text \<open>
  A serialisation of history logs for the concrete environment: the log numbered \<open>n\<close> is
  written as \<open>n + 1\<close> marks, and a text of anything else does not parse.
\<close>

definition demo_stringify_history :: "HistoryItem list \<Rightarrow> string" where
  "demo_stringify_history h = replicate (Suc (to_nat h)) CHR ''x''"

definition demo_parse_history :: "string \<Rightarrow> error + HistoryItem list" where
  "demo_parse_history s =
     (if s \<noteq> [] \<and> set s \<subseteq> {CHR ''x''} then Inr (from_nat (length s - 1)) else Inl SyntaxError)"

definition demoEnv :: "(error + Response) list \<Rightarrow> Env" where
  "demoEnv script =
     \<lparr>generateContent = scriptedBackend script,
      JSON_parse_analysis = demo_parse_analysis,
      JSON_parse_seo = demo_parse_seo,
      JSON_parse_concepts = demo_parse_concepts,
      JSON_parse_history = demo_parse_history,
      JSON_stringify_history = demo_stringify_history\<rparr>"


definition sampleFile :: File where
  "sampleFile =
     \<lparr>file_type = ''image/png'',
      readAsDataURL = Inr ''data:image/png;base64,AAAA'',
      createObjectURL = ''blob:sample''\<rparr>"

definition imageResponse :: "error + Response" where
  "imageResponse =
     Inr \<lparr>response_text = None,
          candidates = Some [\<lparr>content = Some \<lparr>parts = Some [\<lparr>inlineData = Some \<lparr>data = Some ''QUJD''\<rparr>\<rparr>]\<rparr>\<rparr>]\<rparr>"

definition noImageResponse :: "error + Response" where
  "noImageResponse =
     Inr \<lparr>response_text = Some ''I cannot draw this.'',
          candidates = Some [\<lparr>content = Some \<lparr>parts = Some [\<lparr>inlineData = None\<rparr>]\<rparr>\<rparr>]\<rparr>"

text \<open>A response whose first candidate has a content without parts.\<close>

definition noPartsResponse :: Response where
  "noPartsResponse =
     \<lparr>response_text = None, candidates = Some [\<lparr>content = Some \<lparr>parts = None\<rparr>\<rparr>]\<rparr>"

text \<open>A backend that answers the three stages of one run, and the world after that run.\<close>

definition pipelineScript :: "(error + Response) list" where
  "pipelineScript =
     [textResponse sampleAnalysis_json, textResponse sampleSEO_json, textResponse sampleConcepts_json]"


definition forgeScript :: "(error + Response) list" where
  "forgeScript =
     [textResponse sampleAnalysis_json, textResponse sampleSEO_json, textResponse twoConcepts_json,
      imageResponse, noImageResponse]"

definition sampleItem :: HistoryItem where
  "sampleItem =
     \<lparr>id_item = ''1700'', timestamp = 1701, mediaType = image,
      mediaSummary = Some ''A cat jumps.'', platform = YouTube, seo = Some sampleSEO,
      thumbnailConcepts = concepts sampleConcepts, analysis = sampleAnalysis\<rparr>"

definition demoRun :: "(error + Response) list \<Rightarrow> World" where
  "demoRun script =
     persistHistory (demoEnv script)
       (processFlow (demoEnv script) sampleFile None 1700 1701 (mount (demoEnv script) freshWorld))"


section \<open>Properties\<close>

lemmas setters =
  setMedia_def setLoadingStep_def setAnalysis_def setPlatform_def setSeo_def
  setThumbnailConcepts_def setGeneratedThumbnail_def setActivePrompt_def setGenImgLoading_def
  setShowVault_def setHistory_def console_error_def throw_def


lemmas demo =
  scriptedBackend_def at_def textResponse_def noTextResponse_def roundTrip_def orElse_def

lemma sample_texts [simp]:
  "sampleAnalysis_json \<noteq> []" "sampleSEO_json \<noteq> []" "sampleConcepts_json \<noteq> []"
  "twoConcepts_json \<noteq> []"
  by (simp_all add: sampleAnalysis_json_def sampleSEO_json_def sampleConcepts_json_def
        twoConcepts_json_def)

lemma demo_parse [simp]:
  "demo_parse_analysis sampleAnalysis_json = Inr (Some sampleAnalysis)"
  "demo_parse_seo sampleSEO_json = Inr (Some sampleSEO)"
  "demo_parse_seo ''{}'' = Inr (Some blankSEO)"
  "demo_parse_concepts sampleConcepts_json = Inr (Some sampleConcepts)"
  "demo_parse_concepts twoConcepts_json = Inr (Some twoConcepts)"
  by (simp_all add: demo_parse_analysis_def demo_parse_seo_def demo_parse_concepts_def
        sampleSEO_json_def sampleConcepts_json_def twoConcepts_json_def)

lemma demoEnv_sel [simp]:
  "generateContent (demoEnv script) = scriptedBackend script"
  "JSON_parse_analysis (demoEnv script) = demo_parse_analysis"
  "JSON_parse_seo (demoEnv script) = demo_parse_seo"
  "JSON_parse_concepts (demoEnv script) = demo_parse_concepts"
  "JSON_parse_history (demoEnv script) = demo_parse_history"
  "JSON_stringify_history (demoEnv script) = demo_stringify_history"
  by (simp_all add: demoEnv_def)

lemma demo_history_roundtrip:
  "demo_stringify_history h \<noteq> []"
  "demo_parse_history (demo_stringify_history h) = Inr h"
  by (auto simp add: demo_parse_history_def demo_stringify_history_def)

lemma sampleFile_base64: "fileToBase64 sampleFile = Inr (Some ''AAAA'')"
  by (simp add: fileToBase64_def sampleFile_def at_def)

lemma sampleFile_type:
  "file_type sampleFile = ''image/png''"
  "(if startsWith (file_type sampleFile) ''video'' then video else image) = image"
  "startsWith ''image/png'' ''video'' = False"
  by (simp_all add: sampleFile_def startsWith_def)

lemma toString_1700: "toString 1700 = ''1700''"
  by (simp add: toString_def digitChar_def)

lemma demo_stage1:
  "analyzeMedia (demoEnv (textResponse sampleAnalysis_json # rest)) b m [] =
     (Inr (Some sampleAnalysis), [analyzeMedia_request b m])"
  by (simp add: analyzeMedia_def demo)

lemma demo_stage2:
  "length log = 1 \<Longrightarrow>
   generateSEO (demoEnv (r1 # textResponse sampleSEO_json # rest)) sampleAnalysis p log =
     (Inr (Some sampleSEO),
      log @ [generateSEO_request (generateSEO_prompt sampleAnalysis p ''the jump; the landing'' [])])"
  "length log = 1 \<Longrightarrow>
   generateSEO (demoEnv (r1 # noTextResponse # rest)) sampleAnalysis p log =
     (Inr (Some blankSEO),
      log @ [generateSEO_request (generateSEO_prompt sampleAnalysis p ''the jump; the landing'' [])])"
  by (simp_all add: generateSEO_def demo sampleAnalysis_def controversyContext_def)

lemma demo_stage3:
  "length log = 2 \<Longrightarrow>
   generateThumbnailPrompts (demoEnv (r1 # r2 # textResponse sampleConcepts_json # rest)) sampleAnalysis log =
     (Inr (Some sampleConcepts),
      log @ [generateThumbnailPrompts_request
               (generateThumbnailPrompts_prompt sampleAnalysis ''the jump, the landing'')])"
  "length log = 2 \<Longrightarrow>
   generateThumbnailPrompts (demoEnv (r1 # r2 # textResponse twoConcepts_json # rest)) sampleAnalysis log =
     (Inr (Some twoConcepts),
      log @ [generateThumbnailPrompts_request
               (generateThumbnailPrompts_prompt sampleAnalysis ''the jump, the landing'')])"
  by (simp_all add: generateThumbnailPrompts_def demo sampleAnalysis_def)

text \<open>The page just opened in a browser that never ran the program.\<close>

lemma opened_state:
  "mounted (mount (demoEnv script) freshWorld)"
  "requests (mount (demoEnv script) freshWorld) = []"
  "history (app (mount (demoEnv script) freshWorld)) = []"
  "committed (mount (demoEnv script) freshWorld) = []"
  "console (mount (demoEnv script) freshWorld) = []"
  "uncaught (mount (demoEnv script) freshWorld) = []"
  "invoked (mount (demoEnv script) freshWorld) = []"
  "platform (app (mount (demoEnv script) freshWorld)) = YouTube"
  by (simp_all add: mount_def loadHistory_def persistHistory_def freshWorld_def initialState_def)

lemma sample_renders:
  "rendersStrategy (Some sampleSEO) (concepts sampleConcepts)"
  "rendersStrategy (Some sampleSEO) (concepts twoConcepts)"
  "rendersStrategy (Some sampleSEO) (Some [])"
  "\<not> rendersStrategy (Some blankSEO) c"
  by (simp_all add: rendersStrategy_def sampleSEO_def sampleConcepts_def twoConcepts_def blankSEO_def)

lemma sample_summary: "summary sampleAnalysis = Some ''A cat jumps.''"
  by (simp add: sampleAnalysis_def)

text \<open>The three stages of the sample runs, on the page just opened.\<close>

lemma demo_stages:
  fixes rest :: "(error + Response) list"
  defines "l1 \<equiv> [analyzeMedia_request (Some ''AAAA'') ''image/png'']"
  defines "l2 \<equiv> l1 @ [generateSEO_request (generateSEO_prompt sampleAnalysis YouTube ''the jump; the landing'' [])]"
  defines "l3 \<equiv> l2 @ [generateThumbnailPrompts_request
                        (generateThumbnailPrompts_prompt sampleAnalysis ''the jump, the landing'')]"
  shows "analyzeMedia (demoEnv (textResponse sampleAnalysis_json # rest)) (Some ''AAAA'') (file_type sampleFile)
           (requests (mount (demoEnv (textResponse sampleAnalysis_json # rest)) freshWorld))
         = (Inr (Some sampleAnalysis), l1)"
    and "generateSEO (demoEnv (r1 # textResponse sampleSEO_json # rest)) sampleAnalysis
           (case None of None \<Rightarrow> platform (app (mount (demoEnv (r1 # textResponse sampleSEO_json # rest)) freshWorld))
                       | Some q \<Rightarrow> q) l1
         = (Inr (Some sampleSEO), l2)"
    and "generateSEO (demoEnv (r1 # noTextResponse # rest)) sampleAnalysis
           (case None of None \<Rightarrow> platform (app (mount (demoEnv (r1 # noTextResponse # rest)) freshWorld))
                       | Some q \<Rightarrow> q) l1
         = (Inr (Some blankSEO), l2)"
    and "generateThumbnailPrompts (demoEnv (r1 # r2 # textResponse sampleConcepts_json # rest)) sampleAnalysis l2
         = (Inr (Some sampleConcepts), l3)"
    and "generateThumbnailPrompts (demoEnv (r1 # r2 # textResponse twoConcepts_json # rest)) sampleAnalysis l2
         = (Inr (Some twoConcepts), l3)"
  by (simp_all add: l1_def l2_def l3_def opened_state sampleFile_type demo_stage1 demo_stage2 demo_stage3)


subsection \<open>The pipeline run\<close>

text \<open>
  What the gateway functions leave in the log of requests: \<^verbatim>\<open>analyzeMedia\<close> always sends
  its request; \<^verbatim>\<open>generateSEO\<close> has sent one when it resolves, and then the analysis has its
  key scenes and its controversies; when it rejects without a request the analysis lacks
  one of the two.
\<close>

lemma analyzeMedia_log: "snd (analyzeMedia env b m log) = log @ [analyzeMedia_request b m]"
  by (simp add: analyzeMedia_def roundTrip_def split: sum.splits)

lemma generateSEO_resolved:
  assumes "generateSEO env a p log = (Inr s, l)"
  shows "l \<noteq> log" and "controversies a \<noteq> None" and "keyScenes a \<noteq> None"
  using assms
  by (auto simp add: generateSEO_def roundTrip_def Let_def split: option.splits sum.splits)


lemma generateThumbnailPrompts_sent:
  "keyScenes a \<noteq> None \<Longrightarrow> snd (generateThumbnailPrompts env a log) \<noteq> log"
  by (auto simp add: generateThumbnailPrompts_def roundTrip_def Let_def split: option.splits sum.splits)





lemma rendersStrategy_None: "rendersStrategy None c"
  by (simp add: rendersStrategy_def)

lemma rendersStrategy_batch: "rendersStrategy s c \<Longrightarrow> rendersStrategy s (Some [])"
  by (simp add: rendersStrategy_def split: option.splits)

lemma all_stages_resolve:
  assumes "fileToBase64 f = Inr b" and "mounted w"
      and "analyzeMedia env b (file_type f) (requests w) = (Inr (Some a), l1)"
      and "generateSEO env a (case sel of None \<Rightarrow> platform (app w) | Some q \<Rightarrow> q) l1 = (Inr s, l2)"
      and "generateThumbnailPrompts env a l2 = (Inr (Some c), l3)"
  shows "(let w' = processFlow env f sel now_id now_ts w;
              p = (case sel of None \<Rightarrow> platform (app w) | Some q \<Rightarrow> q);
              item = \<lparr>id_item = toString now_id, timestamp = now_ts,
                      mediaType = (if startsWith (file_type f) ''video'' then video else image),
                      mediaSummary = summary a, platform = p, seo = s,
                      thumbnailConcepts = concepts c, analysis = a\<rparr>
          in console w' = console w \<and> requests w' = l3 \<and>
             invoked w' = invoked w @
               [AnalyzeMedia b (file_type f), GenerateSEO (Some a) p, GenerateThumbnailPrompts a] \<and>
             (if rendersStrategy s (concepts c)
              then history (app w') = take 20 (item # history (app w)) \<and>
                   committed w' = item # committed w \<and>
                   analysis (app w') = Some a \<and> seo (app w') = s \<and>
                   thumbnailConcepts (app w') = concepts c \<and>
                   loadingStep (app w') = idle \<and> mounted w'
              else history (app w') = history (app w) \<and> committed w' = committed w \<and>
                   \<not> mounted w'))"
proof -
  have l1: "l1 = requests w @ [analyzeMedia_request b (file_type f)]"
    using analyzeMedia_log [of env b "file_type f" "requests w"] assms(3) by simp
  note g = generateSEO_resolved [OF assms(4)]
  have l3: "l3 \<noteq> l2"
    using generateThumbnailPrompts_sent [OF g(3), of env l2] assms(5) by simp
  show ?thesis
  proof (cases "rendersStrategy s (concepts c)")
    case True
    with rendersStrategy_batch [OF True] l1 g l3 assms show ?thesis
      by (simp add: processFlow_def processFlow_try_def Let_def setters await_def render_def
            renders_def rendersAnalysis_def rendersStrategy_None insertHistory_def slice_def)
  next
    case False
    show ?thesis
    proof (cases "rendersStrategy s (Some [])")
      case True
      with False l1 g l3 assms show ?thesis
        by (simp add: processFlow_def processFlow_try_def Let_def setters await_def render_def
              renders_def rendersAnalysis_def rendersStrategy_None)
    next
      case no: False
      with False l1 g l3 assms show ?thesis
        by (simp add: processFlow_def processFlow_try_def Let_def setters await_def render_def
              renders_def rendersAnalysis_def rendersStrategy_None)
    qed
  qed
qed


text \<open>
  The world after the sample run.
\<close>

lemma pipeline_stages:
  "analyzeMedia (demoEnv pipelineScript) (Some ''AAAA'') (file_type sampleFile)
     (requests (mount (demoEnv pipelineScript) freshWorld))
   = (Inr (Some sampleAnalysis), [analyzeMedia_request (Some ''AAAA'') ''image/png''])"
  "generateSEO (demoEnv pipelineScript) sampleAnalysis
     (case None of None \<Rightarrow> platform (app (mount (demoEnv pipelineScript) freshWorld)) | Some q \<Rightarrow> q)
     [analyzeMedia_request (Some ''AAAA'') ''image/png'']
   = (Inr (Some sampleSEO),
      [analyzeMedia_request (Some ''AAAA'') ''image/png'',
       generateSEO_request (generateSEO_prompt sampleAnalysis YouTube ''the jump; the landing'' [])])"
  "generateThumbnailPrompts (demoEnv pipelineScript) sampleAnalysis
     [analyzeMedia_request (Some ''AAAA'') ''image/png'',
      generateSEO_request (generateSEO_prompt sampleAnalysis YouTube ''the jump; the landing'' [])]
   = (Inr (Some sampleConcepts),
      [analyzeMedia_request (Some ''AAAA'') ''image/png'',
       generateSEO_request (generateSEO_prompt sampleAnalysis YouTube ''the jump; the landing'' []),
       generateThumbnailPrompts_request
         (generateThumbnailPrompts_prompt sampleAnalysis ''the jump, the landing'')])"
  unfolding pipelineScript_def
  using demo_stages(1) [of "[textResponse sampleSEO_json, textResponse sampleConcepts_json]"]
        demo_stages(2) [of "textResponse sampleAnalysis_json" "[textResponse sampleConcepts_json]"]
        demo_stages(4) [of "textResponse sampleAnalysis_json" "textResponse sampleSEO_json" "[]"]
  by simp_all

lemma demoRun_state:
  "analysis (app (demoRun pipelineScript)) = Some sampleAnalysis"
  "seo (app (demoRun pipelineScript)) = Some sampleSEO"
  "thumbnailConcepts (app (demoRun pipelineScript)) = concepts sampleConcepts"
  "history (app (demoRun pipelineScript)) = [sampleItem]"
  "committed (demoRun pipelineScript) = [sampleItem]"
  "loadingStep (app (demoRun pipelineScript)) = idle"
  "length (requests (demoRun pipelineScript)) = 3"
  "console (demoRun pipelineScript) = []"
  using all_stages_resolve
          [OF sampleFile_base64 opened_state(1) pipeline_stages, where now_id = 1700 and now_ts = 1701]
  unfolding demoRun_def
  by (simp_all add: Let_def sample_renders opened_state persistHistory_def sampleItem_def toString_1700
        sample_summary sampleFile_type)






subsection \<open>Empty thumbnail batches\<close>

text \<open>
  C9. When the response to the thumbnail request has no text, or an empty one,
  \<^verbatim>\<open>generateThumbnailPrompts\<close> parses its fallback text and resolves with an empty array of
  concepts. On a page that is up, after a successful analysis and an SEO stage whose
  package the page can render, the run then commits, at the head of the history, a record
  whose batch of concepts is empty.
\<close>

theorem empty_concepts_batch_is_committed:
  assumes \<open>JSON_parse_concepts env ''{"concepts":[]}'' = Inr (Some \<lparr>concepts = Some []\<rparr>)\<close>
      and "fileToBase64 f = Inr b"
      and "mounted w"
      and "analyzeMedia env b (file_type f) (requests w) = (Inr (Some a), l1)"
      and "generateSEO env a (case sel of None \<Rightarrow> platform (app w) | Some q \<Rightarrow> q) l1 = (Inr s, l2)"
      and "rendersStrategy s (Some [])"
      and "keyScenes a = Some scenes"
      and "generateContent env l2
             (generateThumbnailPrompts_request (generateThumbnailPrompts_prompt a (join '', '' scenes)))
           = Inr response"
      and "response_text response = None \<or> response_text response = Some []"
  shows "fst (generateThumbnailPrompts env a l2) = Inr (Some \<lparr>concepts = Some []\<rparr>) \<and>
         thumbnailConcepts (app (processFlow env f sel now_id now_ts w)) = Some [] \<and>
         history (app (processFlow env f sel now_id now_ts w)) =
           take 20
             (\<lparr>id_item = toString now_id, timestamp = now_ts,
               mediaType = (if startsWith (file_type f) ''video'' then video else image),
               mediaSummary = summary a,
               platform = (case sel of None \<Rightarrow> platform (app w) | Some q \<Rightarrow> q),
               seo = s, thumbnailConcepts = Some [], analysis = a\<rparr>
              # history (app w))"
proof -
  let ?req = "generateThumbnailPrompts_request (generateThumbnailPrompts_prompt a (join '', '' scenes))"
  have s3: "generateThumbnailPrompts env a l2 = (Inr (Some \<lparr>concepts = Some []\<rparr>), l2 @ [?req])"
    using assms(1,7,8,9) by (auto simp add: generateThumbnailPrompts_def roundTrip_def orElse_def)
  from all_stages_resolve [OF assms(2,3,4,5) s3, of now_id now_ts] assms(6) s3
  show ?thesis by (simp add: Let_def)
qed

theorem empty_concepts_batch_witness:
  \<open>JSON_parse_concepts
      (demoEnv [textResponse sampleAnalysis_json, textResponse sampleSEO_json, noTextResponse])
      ''{"concepts":[]}'' = Inr (Some \<lparr>concepts = Some []\<rparr>) \<and>
    fileToBase64 sampleFile = Inr (Some ''AAAA'') \<and>
    mounted (mount (demoEnv [textResponse sampleAnalysis_json, textResponse sampleSEO_json, noTextResponse])
               freshWorld) \<and>
    rendersStrategy (Some sampleSEO) (Some []) \<and>
    fst (generateThumbnailPrompts
           (demoEnv [textResponse sampleAnalysis_json, textResponse sampleSEO_json, noTextResponse])
           sampleAnalysis
           [analyzeMedia_request (Some ''AAAA'') ''image/png'',
            generateSEO_request (generateSEO_prompt sampleAnalysis YouTube ''the jump; the landing'' [])])
      = Inr (Some \<lparr>concepts = Some []\<rparr>) \<and>
    history (app (processFlow
        (demoEnv [textResponse sampleAnalysis_json, textResponse sampleSEO_json, noTextResponse])
        sampleFile None 1700 1701
        (mount (demoEnv [textResponse sampleAnalysis_json, textResponse sampleSEO_json, noTextResponse])
           freshWorld))) =
      [\<lparr>id_item = ''1700'', timestamp = 1701, mediaType = image,
        mediaSummary = Some ''A cat jumps.'', platform = YouTube, seo = Some sampleSEO,
        thumbnailConcepts = Some [], analysis = sampleAnalysis\<rparr>]\<close>
proof -
  let ?E = "demoEnv [textResponse sampleAnalysis_json, textResponse sampleSEO_json, noTextResponse]"
  let ?w = "mount ?E freshWorld"
  let ?l1 = "[analyzeMedia_request (Some ''AAAA'') ''image/png'']"
  let ?l2 = "[analyzeMedia_request (Some ''AAAA'') ''image/png'',
        generateSEO_request (generateSEO_prompt sampleAnalysis YouTube ''the jump; the landing'' [])]"
  have h1: \<open>JSON_parse_concepts ?E ''{"concepts":[]}'' = Inr (Some \<lparr>concepts = Some []\<rparr>)\<close>
    by (simp add: demo_parse_concepts_def sampleConcepts_json_def twoConcepts_json_def)
  have h3: "analyzeMedia ?E (Some ''AAAA'') (file_type sampleFile) (requests ?w) =
      (Inr (Some sampleAnalysis), ?l1)"
    using demo_stages(1) [of "[textResponse sampleSEO_json, noTextResponse]"] by simp
  have h4: "generateSEO ?E sampleAnalysis
      (case None of None \<Rightarrow> platform (app ?w) | Some q \<Rightarrow> q) ?l1 = (Inr (Some sampleSEO), ?l2)"
    using demo_stages(2) [of "textResponse sampleAnalysis_json" "[noTextResponse]"] by simp
  have h5: "keyScenes sampleAnalysis = Some [''the jump'', ''the landing'']"
    by (simp add: sampleAnalysis_def)
  have h6: "generateContent ?E ?l2
      (generateThumbnailPrompts_request
         (generateThumbnailPrompts_prompt sampleAnalysis (join '', '' [''the jump'', ''the landing''])))
      = Inr \<lparr>response_text = None, candidates = None\<rparr>"
    by (simp add: demo)
  have h7: "response_text \<lparr>response_text = None, candidates = None\<rparr> = None \<or>
      response_text \<lparr>response_text = None, candidates = None\<rparr> = Some []"
    by simp
  show ?thesis
    using empty_concepts_batch_is_committed
            [OF h1 sampleFile_base64 opened_state(1) h3 h4 sample_renders(3) h5 h6 h7,
             where now_id = 1700 and now_ts = 1701]
    by (simp add: sampleFile_base64 opened_state sample_renders sampleFile_type sample_summary
          toString_1700 demo_parse_concepts_def sampleConcepts_json_def twoConcepts_json_def)
qed


subsection \<open>Platform change\<close>





subsection \<open>The history log\<close>

lemma insertHistory_take: "insertHistory r h = take 20 (r # h)"
  by (simp add: insertHistory_def slice_def)

text \<open>
  A render shows the history that was queued or the one shown before; the run inserts
  one record or none.
\<close>

lemma render_frame:
  "localStorage (render shown w) = localStorage w"
  "(history (app (render shown w)) = history (app w) \<and> committed (render shown w) = committed w) \<or>
   (history (app (render shown w)) = history (app shown) \<and> committed (render shown w) = committed shown)"
  by (simp_all add: render_def throw_def)

lemma await_frame:
  assumes "await sent shown w = (shown', w')"
      and "history (app shown) = h \<and> committed shown = c"
      and "history (app w) = h \<and> committed w = c"
  shows "localStorage w' = localStorage w"
    and "history (app shown') = h \<and> committed shown' = c"
    and "history (app w') = h \<and> committed w' = c"
  using assms render_frame [of shown w]
  by (auto simp add: await_def Let_def split: if_splits)

lemma processFlow_try_frame:
  assumes run: "processFlow_try env f t b p n1 n2 shown w = (thrown, shown', w')"
      and shown: "history (app shown) = h \<and> committed shown = c"
      and w: "history (app w) = h \<and> committed w = c"
  shows "localStorage w' = localStorage w \<and>
         (history (app shown') = h \<and> committed shown' = c) \<and>
         ((history (app w') = h \<and> committed w' = c) \<or>
          (\<exists>r. history (app w') = insertHistory r h \<and> committed w' = r # c))"
proof -
  let ?w1 = "setLoadingStep analyzing w"
  obtain r1 l1 where s1: "analyzeMedia env b (file_type f) (requests ?w1) = (r1, l1)"
    by (cases "analyzeMedia env b (file_type f) (requests ?w1)")
  let ?d2 = "?w1\<lparr>requests := l1, invoked := invoked ?w1 @ [AnalyzeMedia b (file_type f)]\<rparr>"
  obtain shown2 w2 where a2: "await (l1 \<noteq> requests ?w1) shown ?d2 = (shown2, w2)"
    by (cases "await (l1 \<noteq> requests ?w1) shown ?d2")
  have f2: "localStorage w2 = localStorage w" "history (app shown2) = h \<and> committed shown2 = c"
      "history (app w2) = h \<and> committed w2 = c"
    using await_frame [OF a2 shown] w by (simp_all add: setters)
  show ?thesis
  proof (cases r1)
    case (Inl e)
    with run s1 a2 f2 show ?thesis by (simp add: processFlow_try_def Let_def)
  next
    case (Inr analysisRes)
    let ?w3 = "setLoadingStep optimizing (setAnalysis analysisRes w2)"
    show ?thesis
    proof (cases analysisRes)
      case None
      with Inr run s1 a2 f2 show ?thesis by (auto simp add: processFlow_try_def Let_def setters)
    next
      case (Some a)
      obtain r2 l2 where s2: "generateSEO env a p (requests ?w3) = (r2, l2)"
        by (cases "generateSEO env a p (requests ?w3)")
      let ?d4 = "?w3\<lparr>requests := l2, invoked := invoked ?w3 @ [GenerateSEO (Some a) p]\<rparr>"
      obtain shown4 w4 where a4: "await (l2 \<noteq> requests ?w3) shown2 ?d4 = (shown4, w4)"
        by (cases "await (l2 \<noteq> requests ?w3) shown2 ?d4")
      have f4: "localStorage w4 = localStorage w" "history (app shown4) = h \<and> committed shown4 = c"
          "history (app w4) = h \<and> committed w4 = c"
        using await_frame [OF a4 f2(2)] f2 by (simp_all add: setters)
      show ?thesis
      proof (cases r2)
        case (Inl e)
        with Inr Some run s1 a2 s2 a4 f4 show ?thesis by (simp add: processFlow_try_def Let_def)
      next
        case s: (Inr seoRes)
        let ?w5 = "setLoadingStep visualizing (setSeo seoRes w4)"
        obtain r3 l3 where s3: "generateThumbnailPrompts env a (requests ?w5) = (r3, l3)"
          by (cases "generateThumbnailPrompts env a (requests ?w5)")
        let ?d6 = "?w5\<lparr>requests := l3, invoked := invoked ?w5 @ [GenerateThumbnailPrompts a]\<rparr>"
        obtain shown6 w6 where a6: "await (l3 \<noteq> requests ?w5) shown4 ?d6 = (shown6, w6)"
          by (cases "await (l3 \<noteq> requests ?w5) shown4 ?d6")
        have f6: "localStorage w6 = localStorage w" "history (app shown6) = h \<and> committed shown6 = c"
            "history (app w6) = h \<and> committed w6 = c"
          using await_frame [OF a6 f4(2)] f4 by (simp_all add: setters)
        show ?thesis
        proof (cases r3)
          case (Inl e)
          with Inr Some s run s1 a2 s2 a4 s3 a6 f6 show ?thesis
            by (simp add: processFlow_try_def Let_def)
        next
          case t: (Inr thumbRes)
          show ?thesis
          proof (cases thumbRes)
            case None
            with Inr Some s t run s1 a2 s2 a4 s3 a6 f6 show ?thesis
              by (simp add: processFlow_try_def Let_def)
          next
            case c: (Some thumbs)
            with Inr Some s t run s1 a2 s2 a4 s3 a6 f6 show ?thesis
              by (auto simp add: processFlow_try_def Let_def setters)
          qed
        qed
      qed
    qed
  qed
qed

lemma processFlow_frame:
  "localStorage (processFlow env f sel n1 n2 w) = localStorage w"
  "(history (app (processFlow env f sel n1 n2 w)) = history (app w) \<and>
    committed (processFlow env f sel n1 n2 w) = committed w) \<or>
   (\<exists>r. history (app (processFlow env f sel n1 n2 w)) = insertHistory r (history (app w)) \<and>
        committed (processFlow env f sel n1 n2 w) = r # committed w)"
proof -
  let ?p = "case sel of None \<Rightarrow> platform (app w) | Some q \<Rightarrow> q"
  let ?t = "if startsWith (file_type f) ''video'' then video else image"
  have both: "localStorage (processFlow env f sel n1 n2 w) = localStorage w \<and>
    ((history (app (processFlow env f sel n1 n2 w)) = history (app w) \<and>
      committed (processFlow env f sel n1 n2 w) = committed w) \<or>
     (\<exists>r. history (app (processFlow env f sel n1 n2 w)) = insertHistory r (history (app w)) \<and>
          committed (processFlow env f sel n1 n2 w) = r # committed w))"
  proof (cases "fileToBase64 f")
    case (Inl e)
    then show ?thesis by (simp add: processFlow_def Let_def throw_def)
  next
    case (Inr b)
    let ?w5 = "setGeneratedThumbnail None (setThumbnailConcepts (Some []) (setSeo None (setAnalysis None
      (setMedia \<lparr>file = Some f, preview = Some (createObjectURL f), type = Some ?t, base64 = b\<rparr> w))))"
    obtain thrown shown w6 where run: "processFlow_try env f ?t b ?p n1 n2 w ?w5 = (thrown, shown, w6)"
      by (cases "processFlow_try env f ?t b ?p n1 n2 w ?w5") auto
    have w5: "history (app ?w5) = history (app w) \<and> committed ?w5 = committed w"
      by (simp add: setters)
    from processFlow_try_frame [OF run _ w5]
    have f6: "localStorage w6 = localStorage ?w5"
        "history (app shown) = history (app w) \<and> committed shown = committed w"
        "(history (app w6) = history (app w) \<and> committed w6 = committed w) \<or>
         (\<exists>r. history (app w6) = insertHistory r (history (app w)) \<and> committed w6 = r # committed w)"
      by simp_all
    let ?w8 = "setLoadingStep idle (case thrown of None \<Rightarrow> w6 | Some err \<Rightarrow> console_error err w6)"
    have w8: "localStorage ?w8 = localStorage w" "history (app ?w8) = history (app w6)"
        "committed ?w8 = committed w6"
      using f6(1) by (simp_all add: setters split: option.splits)
    have pf: "processFlow env f sel n1 n2 w = render shown ?w8"
      using Inr run by (simp add: processFlow_def Let_def)
    show ?thesis
      unfolding pf using render_frame [of shown ?w8] f6 w8 by auto
  qed
  from both show "localStorage (processFlow env f sel n1 n2 w) = localStorage w" by simp
  from both show "(history (app (processFlow env f sel n1 n2 w)) = history (app w) \<and>
    committed (processFlow env f sel n1 n2 w) = committed w) \<or>
   (\<exists>r. history (app (processFlow env f sel n1 n2 w)) = insertHistory r (history (app w)) \<and>
        committed (processFlow env f sel n1 n2 w) = r # committed w)" by simp
qed

lemma handlePlatformChange_frame:
  "localStorage (handlePlatformChange env p w) = localStorage w"
  "history (app (handlePlatformChange env p w)) = history (app w)"
  "committed (handlePlatformChange env p w) = committed w"
  by (simp_all add: handlePlatformChange_def Let_def setters split: sum.splits prod.splits option.splits)

lemma handleForgeThumbnail_frame:
  "localStorage (handleForgeThumbnail env p w) = localStorage w"
  "history (app (handleForgeThumbnail env p w)) = history (app w)"
  "committed (handleForgeThumbnail env p w) = committed w"
  by (simp_all add: handleForgeThumbnail_def Let_def setters split: sum.splits prod.splits option.splits)

lemma recallItem_frame:
  "localStorage (recallItem item w) = localStorage w"
  "history (app (recallItem item w)) = history (app w)"
  "committed (recallItem item w) = committed w"
  by (simp_all add: recallItem_def setters)

lemma setShowVault_frame:
  "localStorage (setShowVault b w) = localStorage w"
  "history (app (setShowVault b w)) = history (app w)"
  "committed (setShowVault b w) = committed w"
  by (simp_all add: setters)

lemma persistHistory_frame:
  "localStorage (persistHistory env w) = Some (JSON_stringify_history env (history (app w)))"
  "history (app (persistHistory env w)) = history (app w)"
  "committed (persistHistory env w) = committed w"
  by (simp_all add: persistHistory_def)

text \<open>
  Opening the page on a store that holds the serialised log \<open>h\<close> brings \<open>h\<close> back.
\<close>

lemma mount_frame:
  assumes "\<And>h. JSON_stringify_history env h \<noteq> []"
      and "\<And>h. JSON_parse_history env (JSON_stringify_history env h) = Inr h"
      and "localStorage w = Some (JSON_stringify_history env h)"
  shows "history (app (mount env w)) = h"
    and "committed (mount env w) = committed w"
    and "localStorage (mount env w) = Some (JSON_stringify_history env h)"
  using assms by (simp_all add: mount_def loadHistory_def persistHistory_def setters)

lemma take_insert: "take 20 (r # take 20 c) = take 20 (r # c)"
  by (simp add: take_Cons')

text \<open>
  In every reachable world the history is the 20 most recent of the records committed so
  far, most recent first, and the store holds its serialisation.
\<close>

lemma reachable_invariant:
  assumes nonempty: "\<And>h. JSON_stringify_history env h \<noteq> []"
      and roundtrip: "\<And>h. JSON_parse_history env (JSON_stringify_history env h) = Inr h"
      and "reachable env w"
  shows "history (app w) = take 20 (committed w) \<and>
         localStorage w = Some (JSON_stringify_history env (history (app w)))"
  using assms(3)
proof (induction rule: reachable.induct)
  case opened
  show ?case
    by (simp add: mount_def loadHistory_def persistHistory_def freshWorld_def initialState_def)
next
  case (reopened w)
  then show ?case using mount_frame [OF nonempty roundtrip] by simp
next
  case (submit_media w f sel n1 n2)
  then show ?case
    using processFlow_frame(2) [of env f sel n1 n2 w]
    by (auto simp add: persistHistory_frame insertHistory_take take_insert)
next
  case (change_platform w p)
  then show ?case by (simp add: handlePlatformChange_frame)
next
  case (forge_thumbnail w p)
  then show ?case by (simp add: handleForgeThumbnail_frame)
next
  case (recall_run w item)
  then show ?case by (simp add: recallItem_frame)
next
  case (show_vault w b)
  then show ?case by (simp add: setShowVault_frame)
qed

text \<open>
  C2. The store is the program's own: what \<^verbatim>\<open>JSON.stringify\<close> writes of a history log is
  not the empty text, and \<^verbatim>\<open>JSON.parse\<close> reads it back. Then in every reachable world the
  history has at most 20 records and is the 20 most recent commits, newest first. The
  insertion puts the new record in front and keeps the first 20: on a log of 20 records it
  drops the last one, the oldest, and keeps the other 19 in their order.
\<close>

theorem history_bounded_newest_first:
  assumes "\<And>h. JSON_stringify_history env h \<noteq> []"
      and "\<And>h. JSON_parse_history env (JSON_stringify_history env h) = Inr h"
      and "reachable env w"
  shows "length (history (app w)) \<le> 20 \<and>
         history (app w) = take 20 (committed w) \<and>
         insertHistory r h = take 20 (r # h) \<and>
         (length h = 20 \<longrightarrow> insertHistory r h = r # butlast h)"
proof -
  have "length h = 20 \<Longrightarrow> take 19 h = butlast h"
    by (simp add: butlast_conv_take)
  then show ?thesis
    using reachable_invariant [OF assms] by (auto simp add: insertHistory_take)
qed

lemma mount_committed: "committed (mount env w) = committed w"
  by (simp add: mount_def loadHistory_def persistHistory_def setters
        split: option.splits sum.splits)

text \<open>
  The sample run, and the page opened again after it.
\<close>

theorem history_bounded_newest_first_witness:
  "reachable (demoEnv pipelineScript) (demoRun pipelineScript) \<and>
   history (app (demoRun pipelineScript)) = [sampleItem] \<and>
   reachable (demoEnv pipelineScript) (mount (demoEnv pipelineScript) (demoRun pipelineScript)) \<and>
   history (app (mount (demoEnv pipelineScript) (demoRun pipelineScript))) = [sampleItem] \<and>
   length (history (app (mount (demoEnv pipelineScript) (demoRun pipelineScript)))) \<le> 20 \<and>
   length (replicate 20 sampleItem) = 20 \<and>
   insertHistory sampleItem (replicate 20 sampleItem) = sampleItem # butlast (replicate 20 sampleItem)"
proof -
  have r: "reachable (demoEnv pipelineScript) (demoRun pipelineScript)"
    unfolding demoRun_def by (rule reachable.submit_media [OF reachable.opened])
  have r': "reachable (demoEnv pipelineScript) (mount (demoEnv pipelineScript) (demoRun pipelineScript))"
    by (rule reachable.reopened [OF r])
  have n: "\<And>h. JSON_stringify_history (demoEnv pipelineScript) h \<noteq> []"
    by (simp add: demo_history_roundtrip)
  have p: "\<And>h. JSON_parse_history (demoEnv pipelineScript)
                  (JSON_stringify_history (demoEnv pipelineScript) h) = Inr h"
    by (simp add: demo_history_roundtrip)
  show ?thesis
    using history_bounded_newest_first
            [OF n p r', where r = sampleItem and h = "replicate 20 sampleItem"]
    by (auto simp add: r r' demoRun_state mount_committed)
qed


subsection \<open>Loading the history\<close>

text \<open>
  C4, as the code has it. On a page just opened the load effect leaves the history empty,
  and throws nothing, when the store holds no blob or an empty one. A blob that does not
  parse leaves the history empty as well, but its parse error is thrown out of the effect
  and nothing catches it. A blob that parses becomes the history.
\<close>

theorem loadHistory_outcomes:
  "(case loadHistory env (w\<lparr>app := initialState\<rparr>) of
      (thrown, w') \<Rightarrow>
        uncaught (mount env w) = (case thrown of None \<Rightarrow> uncaught w | Some e \<Rightarrow> uncaught w @ [e]) \<and>
        (case localStorage w of
           None \<Rightarrow> thrown = None \<and> history (app w') = []
         | Some saved \<Rightarrow>
             if saved = [] then thrown = None \<and> history (app w') = []
             else (case JSON_parse_history env saved of
                     Inl e \<Rightarrow> thrown = Some e \<and> history (app w') = []
                   | Inr parsed \<Rightarrow> thrown = None \<and> history (app w') = parsed)))"
  by (simp add: loadHistory_def mount_def persistHistory_def setters initialState_def
        split: option.splits sum.splits)

theorem loadHistory_outcomes_witness:
  "loadHistory (demoEnv []) (freshWorld\<lparr>app := initialState\<rparr>) = (None, freshWorld) \<and>
   fst (loadHistory (demoEnv [])
      (freshWorld\<lparr>localStorage := Some (demo_stringify_history [sampleItem]), app := initialState\<rparr>))
     = None \<and>
   history (app (snd (loadHistory (demoEnv [])
      (freshWorld\<lparr>localStorage := Some (demo_stringify_history [sampleItem]), app := initialState\<rparr>))))
     = [sampleItem]"
  using loadHistory_outcomes [of "demoEnv []" freshWorld]
        loadHistory_outcomes
          [of "demoEnv []" "freshWorld\<lparr>localStorage := Some (demo_stringify_history [sampleItem])\<rparr>"]
  by (auto simp add: freshWorld_def demo_history_roundtrip loadHistory_def split: prod.splits)

text \<open>
  A store whose blob is not JSON: the effect throws a \<^verbatim>\<open>SyntaxError\<close>, uncaught.
\<close>

theorem loadHistory_unparseable_counterexample:
  "localStorage (freshWorld\<lparr>localStorage := Some ''{broken''\<rparr>) = Some ''{broken'' \<and>
   JSON_parse_history (demoEnv []) ''{broken'' = Inl SyntaxError \<and>
   fst (loadHistory (demoEnv []) (freshWorld\<lparr>localStorage := Some ''{broken''\<rparr>))
     = Some SyntaxError \<and>
   uncaught (mount (demoEnv []) (freshWorld\<lparr>localStorage := Some ''{broken''\<rparr>))
     = [SyntaxError]"
  by (simp add: loadHistory_def mount_def freshWorld_def demo_parse_history_def throw_def)


subsection \<open>The thumbnail concepts\<close>

lemma sublist_skip: "sublist xs ys \<Longrightarrow> sublist xs (ps @ ys)"
  by (auto simp add: sublist_def) (metis append.assoc)

lemma sublist_here: "sublist xs ys \<Longrightarrow> sublist xs (ys @ ss)"
  by (auto simp add: sublist_def) (metis append.assoc)

lemma sublist_at: "take (length xs) (drop k ys) = xs \<Longrightarrow> sublist xs ys"
  unfolding sublist_def by (metis append_take_drop_id)

text \<open>
  Each of the ten style names stands in the prompt, five characters into its line.
\<close>

lemma prompt_names_styles:
  "\<forall>s \<in> set thumbnailStyles. sublist s (generateThumbnailPrompts_prompt a sc)"
  unfolding generateThumbnailPrompts_prompt_def thumbnailStyles_def list.set ball_simps
  apply (intro conjI)
  apply (((rule sublist_here, rule sublist_at [where k = 5], (simp; fail)) | rule sublist_skip)+)+
  apply simp
  done

text \<open>
  C5, as the code has it. \<^verbatim>\<open>generateThumbnailPrompts\<close> asks for the batch: its one request
  carries a prompt that names each of the ten styles. What it returns is what
  \<^verbatim>\<open>JSON.parse\<close> makes of the response text (of the fallback text when there is none),
  with no check of the number of concepts or of their styles: the batch has ten concepts
  that cover the ten styles exactly when the backend's answer has.
\<close>

theorem generateThumbnailPrompts_returns_parsed:
  assumes "keyScenes a = Some scenes"
      and "generateContent env log
             (generateThumbnailPrompts_request (generateThumbnailPrompts_prompt a (join '', '' scenes)))
           = Inr response"
  shows \<open>(\<forall>s \<in> set thumbnailStyles.
            sublist s (generateThumbnailPrompts_prompt a (join '', '' scenes))) \<and>
         generateThumbnailPrompts env a log =
           (JSON_parse_concepts env (orElse (response_text response) ''{"concepts":[]}''),
            log @ [generateThumbnailPrompts_request
                     (generateThumbnailPrompts_prompt a (join '', '' scenes))])\<close>
  using assms prompt_names_styles [of a "join '', '' scenes"]
  by (simp add: generateThumbnailPrompts_def roundTrip_def)

theorem generateThumbnailPrompts_returns_parsed_witness:
  "keyScenes sampleAnalysis = Some [''the jump'', ''the landing''] \<and>
   sublist ''Glitchcore'' (generateThumbnailPrompts_prompt sampleAnalysis ''the jump, the landing'') \<and>
   generateThumbnailPrompts (demoEnv [textResponse sampleConcepts_json]) sampleAnalysis [] =
     (Inr (Some sampleConcepts),
      [generateThumbnailPrompts_request
         (generateThumbnailPrompts_prompt sampleAnalysis ''the jump, the landing'')])"
proof -
  have k: "keyScenes sampleAnalysis = Some [''the jump'', ''the landing'']"
    by (simp add: sampleAnalysis_def)
  have g: "generateContent (demoEnv [textResponse sampleConcepts_json]) []
      (generateThumbnailPrompts_request
         (generateThumbnailPrompts_prompt sampleAnalysis (join '', '' [''the jump'', ''the landing''])))
      = Inr \<lparr>response_text = Some sampleConcepts_json, candidates = None\<rparr>"
    by (simp add: demo)
  show ?thesis
    using generateThumbnailPrompts_returns_parsed [OF k g]
    by (simp add: k orElse_def thumbnailStyles_def)
qed

text \<open>
  The backend answers with one concept: the batch returned has one concept.
\<close>

theorem generateThumbnailPrompts_short_batch_counterexample:
  "fst (generateThumbnailPrompts (demoEnv [textResponse sampleConcepts_json]) sampleAnalysis [])
     = Inr (Some \<lparr>concepts = Some [\<lparr>prompt = ''A cat in neon rain.'', style = ''Cyberpunk Neon''\<rparr>]\<rparr>) \<and>
   \<not> completeBatch [\<lparr>prompt = ''A cat in neon rain.'', style = ''Cyberpunk Neon''\<rparr>]"
  by (simp add: generateThumbnailPrompts_def demo sampleAnalysis_def sampleConcepts_def
        completeBatch_def)


subsection \<open>The response of analyzeMedia\<close>

text \<open>
  C6. \<^verbatim>\<open>JSON.parse\<close> makes the empty object of the text \<^verbatim>\<open>{}\<close>. Then, when the backend
  has answered, a response whose text is missing or empty makes \<^verbatim>\<open>analyzeMedia\<close> resolve
  with the empty object, and a text that does not parse makes it reject with the parser's
  error, which is the failure of the stage.
\<close>

theorem analyzeMedia_empty_text_and_parse_failure:
  assumes "JSON_parse_analysis env ''{}'' = Inr (Some emptyObject)"
      and "generateContent env log (analyzeMedia_request b m) = Inr response"
  shows "(response_text response = None \<or> response_text response = Some [] \<longrightarrow>
            analyzeMedia env b m log = (Inr (Some emptyObject), log @ [analyzeMedia_request b m])) \<and>
         (\<forall>t e. response_text response = Some t \<and> t \<noteq> [] \<and> JSON_parse_analysis env t = Inl e \<longrightarrow>
            analyzeMedia env b m log = (Inl e, log @ [analyzeMedia_request b m]))"
  using assms by (auto simp add: analyzeMedia_def roundTrip_def orElse_def)

theorem analyzeMedia_empty_text_and_parse_failure_witness:
  "JSON_parse_analysis (demoEnv [noTextResponse]) ''{}'' = Inr (Some emptyObject) \<and>
   generateContent (demoEnv [noTextResponse]) [] (analyzeMedia_request (Some ''AAAA'') ''image/png'')
     = Inr \<lparr>response_text = None, candidates = None\<rparr> \<and>
   analyzeMedia (demoEnv [noTextResponse]) (Some ''AAAA'') ''image/png'' []
     = (Inr (Some emptyObject), [analyzeMedia_request (Some ''AAAA'') ''image/png'']) \<and>
   JSON_parse_analysis (demoEnv [textResponse ''<html>'']) ''<html>'' = Inl SyntaxError \<and>
   analyzeMedia (demoEnv [textResponse ''<html>'']) (Some ''AAAA'') ''image/png'' []
     = (Inl SyntaxError, [analyzeMedia_request (Some ''AAAA'') ''image/png''])"
proof -
  let ?req = "analyzeMedia_request (Some ''AAAA'') ''image/png''"
  have p: "JSON_parse_analysis (demoEnv s) ''{}'' = Inr (Some emptyObject)" for s
    by (simp add: demo_parse_analysis_def sampleAnalysis_json_def)
  have g1: "generateContent (demoEnv [noTextResponse]) [] ?req =
      Inr \<lparr>response_text = None, candidates = None\<rparr>"
    by (simp add: demo)
  have g2: "generateContent (demoEnv [textResponse ''<html>'']) [] ?req =
      Inr \<lparr>response_text = Some ''<html>'', candidates = None\<rparr>"
    by (simp add: demo)
  have f: "JSON_parse_analysis (demoEnv [textResponse ''<html>'']) ''<html>'' = Inl SyntaxError"
    by (simp add: demo_parse_analysis_def sampleAnalysis_json_def)
  from analyzeMedia_empty_text_and_parse_failure [OF p g1]
       analyzeMedia_empty_text_and_parse_failure [OF p g2] p g1 f
  show ?thesis by simp
qed


subsection \<open>Rendering a thumbnail\<close>

lemma map_filter_inline_Nil:
  "List.map_filter inlineData ps = [] \<Longrightarrow> p \<in> set ps \<Longrightarrow> inlineData p = None"
  by (induction ps) (auto simp add: List.map_filter_simps split: option.splits)

lemma findInlineData_no_payload:
  assumes "inlinePayloads response = []"
  shows "findInlineData response = Inr None \<or> findInlineData response = Inl TypeError"
proof (cases "candidates response")
  case None
  then show ?thesis by (simp add: findInlineData_def)
next
  case (Some cs)
  show ?thesis
  proof (cases cs)
    case Nil
    with Some show ?thesis by (simp add: findInlineData_def at_def)
  next
    case (Cons c cs')
    with Some assms show ?thesis
      by (auto simp add: findInlineData_def at_def inlinePayloads_def find_None_iff
               dest: map_filter_inline_Nil split: option.splits)
  qed
qed

lemma generateNanoBananaImage_no_payload:
  assumes "generateContent env log (generateNanoBananaImage_request p) = Inr response"
      and "inlinePayloads response = []"
  shows "generateNanoBananaImage env p log =
           ((case findInlineData response of
               Inl e \<Rightarrow> Inl e
             | Inr x \<Rightarrow> Inl (Error ''No image generated'')),
            log @ [generateNanoBananaImage_request p])"
  using assms findInlineData_no_payload [OF assms(2)]
  by (auto simp add: generateNanoBananaImage_def roundTrip_def)

text \<open>
  When the response to the render request carries no inline payload, the render fails:
  with \<^verbatim>\<open>Error("No image generated")\<close> when the search for a part ends with \<^verbatim>\<open>undefined\<close>,
  with a \<^verbatim>\<open>TypeError\<close> when the first candidate has a content without parts. One request
  has been made and no other follows, and the rendered thumbnail, with what the page
  shows of it, is the one from before.
\<close>

lemma forge_without_image:
  assumes "generateContent env (requests w) (generateNanoBananaImage_request p) = Inr response"
      and "inlinePayloads response = []"
  shows "(let w' = handleForgeThumbnail env p w;
              r = fst (generateNanoBananaImage env p (requests w))
          in ((findInlineData response = Inr None \<and> r = Inl (Error ''No image generated'')) \<or>
              (findInlineData response = Inl TypeError \<and> r = Inl TypeError)) \<and>
             requests w' = requests w @ [generateNanoBananaImage_request p] \<and>
             invoked w' = invoked w @ [GenerateNanoBananaImage p] \<and>
             generatedThumbnail (app w') = generatedThumbnail (app w) \<and>
             map_option fst (renderedThumbnail (app w')) = map_option fst (renderedThumbnail (app w)))"
  using generateNanoBananaImage_no_payload [OF assms] findInlineData_no_payload [OF assms(2)]
  by (auto simp add: handleForgeThumbnail_def Let_def setters renderedThumbnail_def split: option.splits)

text \<open>
  C7, where the code departs from it. A response whose first candidate has a content
  without parts carries no inline payload. On it \<^verbatim>\<open>generateNanoBananaImage\<close> does not reach
  \<^verbatim>\<open>throw new Error("No image generated")\<close>: \<^verbatim>\<open>parts\<close> is the one link of
  \<^verbatim>\<open>response.candidates?.[0]?.content?.parts.find(...)\<close> that is read without \<^verbatim>\<open>?.\<close>, and
  the call of \<^verbatim>\<open>find\<close> on \<^verbatim>\<open>undefined\<close> throws a \<^verbatim>\<open>TypeError\<close>, the error of any
  malformed value and not one of its own.
\<close>

theorem generateNanoBananaImage_content_without_parts:
  "inlinePayloads noPartsResponse = [] \<and>
   generateNanoBananaImage (demoEnv [Inr noPartsResponse]) ''A cat in neon rain.'' []
     = (Inl TypeError, [generateNanoBananaImage_request ''A cat in neon rain.''])"
  by (simp add: inlinePayloads_def noPartsResponse_def generateNanoBananaImage_def findInlineData_def
        demo)

text \<open>
  The backend of the run with two concepts renders an image for the first render request
  and none for the second.
\<close>

lemma demo_render:
  "length log = 3 \<Longrightarrow>
   generateNanoBananaImage (demoEnv forgeScript) p log =
     (Inr ''data:image/png;base64,QUJD'', log @ [generateNanoBananaImage_request p])"
  "length log = 4 \<Longrightarrow>
   generateNanoBananaImage (demoEnv forgeScript) p log =
     (Inl (Error ''No image generated''), log @ [generateNanoBananaImage_request p])"
  by (simp_all add: generateNanoBananaImage_def demo imageResponse_def noImageResponse_def
        findInlineData_def interpolate_def forgeScript_def)

lemma forge_stages:
  "analyzeMedia (demoEnv forgeScript) (Some ''AAAA'') (file_type sampleFile)
     (requests (mount (demoEnv forgeScript) freshWorld))
   = (Inr (Some sampleAnalysis), [analyzeMedia_request (Some ''AAAA'') ''image/png''])"
  "generateSEO (demoEnv forgeScript) sampleAnalysis
     (case None of None \<Rightarrow> platform (app (mount (demoEnv forgeScript) freshWorld)) | Some q \<Rightarrow> q)
     [analyzeMedia_request (Some ''AAAA'') ''image/png'']
   = (Inr (Some sampleSEO),
      [analyzeMedia_request (Some ''AAAA'') ''image/png'',
       generateSEO_request (generateSEO_prompt sampleAnalysis YouTube ''the jump; the landing'' [])])"
  "generateThumbnailPrompts (demoEnv forgeScript) sampleAnalysis
     [analyzeMedia_request (Some ''AAAA'') ''image/png'',
      generateSEO_request (generateSEO_prompt sampleAnalysis YouTube ''the jump; the landing'' [])]
   = (Inr (Some twoConcepts),
      [analyzeMedia_request (Some ''AAAA'') ''image/png'',
       generateSEO_request (generateSEO_prompt sampleAnalysis YouTube ''the jump; the landing'' []),
       generateThumbnailPrompts_request
         (generateThumbnailPrompts_prompt sampleAnalysis ''the jump, the landing'')])"
  unfolding forgeScript_def
  using demo_stages(1) [of "[textResponse sampleSEO_json, textResponse twoConcepts_json, imageResponse, noImageResponse]"]
        demo_stages(2) [of "textResponse sampleAnalysis_json" "[textResponse twoConcepts_json, imageResponse, noImageResponse]"]
        demo_stages(5) [of "textResponse sampleAnalysis_json" "textResponse sampleSEO_json" "[imageResponse, noImageResponse]"]
  by simp_all

text \<open>The world after the run that leaves two concepts, and after the render of the first.\<close>

lemma forgeRun_state:
  "seo (app (demoRun forgeScript)) = Some sampleSEO"
  "thumbnailConcepts (app (demoRun forgeScript)) = concepts twoConcepts"
  "length (requests (demoRun forgeScript)) = 3"
  using all_stages_resolve
          [OF sampleFile_base64 opened_state(1) forge_stages, where now_id = 1700 and now_ts = 1701]
  unfolding demoRun_def
  by (simp_all add: Let_def sample_renders opened_state persistHistory_def)

lemma demo_forge:
  "generatedThumbnail (app (handleForgeThumbnail (demoEnv forgeScript) p (demoRun forgeScript)))
     = Some ''data:image/png;base64,QUJD''"
  "length (requests (handleForgeThumbnail (demoEnv forgeScript) p (demoRun forgeScript))) = 4"
  "activePrompt (app (handleForgeThumbnail (demoEnv forgeScript) p (demoRun forgeScript))) = Some p"
  "seo (app (handleForgeThumbnail (demoEnv forgeScript) p (demoRun forgeScript))) = Some sampleSEO"
  by (simp_all add: handleForgeThumbnail_def Let_def setters demo_render(1) forgeRun_state)

text \<open>
  C10. \<^verbatim>\<open>handleForgeThumbnail\<close> always ends with the loading flag cleared and with its
  prompt as the active prompt, which it sets before the render; a failed render leaves the
  rendered thumbnail as it was, a successful one replaces it. After a run that has left an
  SEO package and two concepts, the render of the first concept shows its image under its
  prompt; when the render of the second concept then fails, the page shows the image of
  the first concept under the prompt of the second.
\<close>

theorem forge_failure_keeps_thumbnail_under_new_prompt:
  "(let w' = handleForgeThumbnail env p w;
        r = fst (generateNanoBananaImage env p (requests w))
    in genImgLoading (app w') = False \<and>
       activePrompt (app w') = Some p \<and>
       (case r of
          Inl e \<Rightarrow> generatedThumbnail (app w') = generatedThumbnail (app w)
        | Inr img \<Rightarrow> generatedThumbnail (app w') = Some img)) \<and>
   thumbnailConcepts (app (demoRun forgeScript))
     = Some [\<lparr>prompt = ''A cat in neon rain.'', style = ''Cyberpunk Neon''\<rparr>,
             \<lparr>prompt = ''A cat in pastel fog.'', style = ''Pastel Goth''\<rparr>] \<and>
   renderedThumbnail (app (handleForgeThumbnail (demoEnv forgeScript) ''A cat in neon rain.''
      (demoRun forgeScript))) = Some (''data:image/png;base64,QUJD'', Some ''A cat in neon rain.'') \<and>
   renderedThumbnail (app (handleForgeThumbnail (demoEnv forgeScript) ''A cat in pastel fog.''
      (handleForgeThumbnail (demoEnv forgeScript) ''A cat in neon rain.'' (demoRun forgeScript))))
     = Some (''data:image/png;base64,QUJD'', Some ''A cat in pastel fog.'')"
proof -
  let ?E = "demoEnv forgeScript"
  let ?w = "handleForgeThumbnail ?E ''A cat in neon rain.'' (demoRun forgeScript)"
  have general: "(let w' = handleForgeThumbnail env p w;
        r = fst (generateNanoBananaImage env p (requests w))
    in genImgLoading (app w') = False \<and>
       activePrompt (app w') = Some p \<and>
       (case r of
          Inl e \<Rightarrow> generatedThumbnail (app w') = generatedThumbnail (app w)
        | Inr img \<Rightarrow> generatedThumbnail (app w') = Some img))"
    by (simp add: handleForgeThumbnail_def Let_def setters split: sum.splits prod.splits)
  have batch: "thumbnailConcepts (app (demoRun forgeScript))
     = Some [\<lparr>prompt = ''A cat in neon rain.'', style = ''Cyberpunk Neon''\<rparr>,
             \<lparr>prompt = ''A cat in pastel fog.'', style = ''Pastel Goth''\<rparr>]"
    by (simp add: forgeRun_state twoConcepts_def)
  have first: "renderedThumbnail (app ?w) = Some (''data:image/png;base64,QUJD'', Some ''A cat in neon rain.'')"
    by (simp add: renderedThumbnail_def demo_forge)
  have "generateNanoBananaImage ?E ''A cat in pastel fog.'' (requests ?w) =
      (Inl (Error ''No image generated''), requests ?w @ [generateNanoBananaImage_request ''A cat in pastel fog.''])"
    by (simp add: demo_render(2) demo_forge(2))
  then have second: "renderedThumbnail (app (handleForgeThumbnail ?E ''A cat in pastel fog.'' ?w))
      = Some (''data:image/png;base64,QUJD'', Some ''A cat in pastel fog.'')"
    by (simp add: handleForgeThumbnail_def [of ?E "''A cat in pastel fog.''"] Let_def setters
          renderedThumbnail_def demo_forge(1,4))
  from general batch first second show ?thesis by blast
qed

theorem forge_failure_keeps_thumbnail_witness:
  "genImgLoading (app (handleForgeThumbnail (demoEnv forgeScript) ''A cat in pastel fog.''
      (handleForgeThumbnail (demoEnv forgeScript) ''A cat in neon rain.'' (demoRun forgeScript)))) = False \<and>
   activePrompt (app (handleForgeThumbnail (demoEnv forgeScript) ''A cat in pastel fog.''
      (handleForgeThumbnail (demoEnv forgeScript) ''A cat in neon rain.'' (demoRun forgeScript))))
     = Some ''A cat in pastel fog.'' \<and>
   generatedThumbnail (app (handleForgeThumbnail (demoEnv forgeScript) ''A cat in pastel fog.''
      (handleForgeThumbnail (demoEnv forgeScript) ''A cat in neon rain.'' (demoRun forgeScript))))
     = Some ''data:image/png;base64,QUJD''"
proof -
  let ?E = "demoEnv forgeScript"
  let ?w = "handleForgeThumbnail ?E ''A cat in neon rain.'' (demoRun forgeScript)"
  have f: "fst (generateNanoBananaImage ?E ''A cat in pastel fog.'' (requests ?w)) =
      Inl (Error ''No image generated'')"
    by (simp add: demo_render(2) demo_forge(2))
  show ?thesis
    using forge_failure_keeps_thumbnail_under_new_prompt [of ?E "''A cat in pastel fog.''" ?w]
    by (simp add: Let_def f demo_forge(1))
qed


subsection \<open>The request of generateSEO\<close>

text \<open>
  C8. When the analysis holds an empty list of controversies, the only request that
  \<^verbatim>\<open>generateSEO\<close> sends carries the prompt built with the empty string as its controversy
  context: no topic is named in it. (An analysis without key scenes fails before any
  request is made.)
\<close>

theorem generateSEO_empty_controversies:
  "controversies a = Some [] \<Longrightarrow>
   controversyContext [] = [] \<and>
   snd (generateSEO env a p log) =
     (case keyScenes a of
        None \<Rightarrow> log
      | Some scenes \<Rightarrow> log @ [generateSEO_request (generateSEO_prompt a p (join ''; '' scenes) [])])"
  by (simp add: generateSEO_def roundTrip_def controversyContext_def Let_def
           split: option.splits sum.splits prod.splits)

theorem generateSEO_empty_controversies_witness:
  "controversies sampleAnalysis = Some [] \<and>
   snd (generateSEO (demoEnv []) sampleAnalysis Twitter []) =
     [generateSEO_request (generateSEO_prompt sampleAnalysis Twitter ''the jump; the landing'' [])]"
  using generateSEO_empty_controversies [of sampleAnalysis "demoEnv []" Twitter "[]"]
  by (simp add: sampleAnalysis_def)

end
